theory Spec2Isabelle
  imports Complex_Main "HOL-Library.Sublist" "HOL-Library.AList"
begin

section \<open>Python exceptions\<close>

text \<open>
  The handlers of the agent dispatch on the class of the exception they see:
  \<^verbatim>\<open>except (json_module.JSONDecodeError, ValueError)\<close>, \<^verbatim>\<open>except requests.RequestException\<close>
  and \<^verbatim>\<open>except Exception\<close>. An exception is modelled as its class and the text that
  \<^verbatim>\<open>str(e)\<close> gives. The first three classes derive from \<^verbatim>\<open>BaseException\<close> only (since
  Python 3.8 \<^verbatim>\<open>asyncio.CancelledError\<close> is one of them), so \<^verbatim>\<open>except Exception\<close> lets
  them pass. \<^verbatim>\<open>json.JSONDecodeError\<close>, pydantic's \<^verbatim>\<open>ValidationError\<close> and
  \<^verbatim>\<open>UnicodeEncodeError\<close> derive from \<^verbatim>\<open>ValueError\<close>; \<^verbatim>\<open>requests.HTTPError\<close> derives from
  \<^verbatim>\<open>requests.RequestException\<close>; \<^verbatim>\<open>RecursionError\<close> derives from \<^verbatim>\<open>RuntimeError\<close> and
  \<^verbatim>\<open>OverflowError\<close> from \<^verbatim>\<open>ArithmeticError\<close>, neither from \<^verbatim>\<open>ValueError\<close>.
\<close>

datatype exn_class =
    KeyboardInterrupt | SystemExit | CancelledError
  | Exception | ValueError | JSONDecodeError | ValidationError | UnicodeEncodeError
  | TypeError | IndexError | KeyError | AttributeError | ZeroDivisionError
  | RecursionError | OverflowError
  | RequestException | HTTPError | InvalidTransition

datatype exn = Exn (exn_cls: exn_class) (exn_str: string)

fun is_Exception :: "exn_class \<Rightarrow> bool" where
  "is_Exception KeyboardInterrupt = False"
| "is_Exception SystemExit = False"
| "is_Exception CancelledError = False"
| "is_Exception _ = True"

fun is_ValueError :: "exn_class \<Rightarrow> bool" where
  "is_ValueError ValueError = True"
| "is_ValueError JSONDecodeError = True"
| "is_ValueError ValidationError = True"
| "is_ValueError UnicodeEncodeError = True"
| "is_ValueError _ = False"

fun is_JSONDecodeError :: "exn_class \<Rightarrow> bool" where
  "is_JSONDecodeError JSONDecodeError = True"
| "is_JSONDecodeError _ = False"

fun is_RequestException :: "exn_class \<Rightarrow> bool" where
  "is_RequestException RequestException = True"
| "is_RequestException HTTPError = True"
| "is_RequestException _ = False"

text \<open>Sequencing of steps that may raise: the first exception ends the block.\<close>

definition and_then :: "exn + 'a \<Rightarrow> ('a \<Rightarrow> exn + 'b) \<Rightarrow> exn + 'b" where
  "and_then r f = (case r of Inl e \<Rightarrow> Inl e | Inr v \<Rightarrow> f v)"

text \<open>A step that returns nothing: \<open>None\<close> when it completes, the exception otherwise.\<close>

definition after :: "exn option \<Rightarrow> (exn + 'b) \<Rightarrow> exn + 'b" where
  "after r rest = (case r of Some e \<Rightarrow> Inl e | None \<Rightarrow> rest)"

section \<open>Session state machine\<close>

text \<open>
  Modelled from the spec: \<^verbatim>\<open>app/state.py\<close> (class \<^verbatim>\<open>AgentState\<close>) is imported by
  \<^verbatim>\<open>main.py\<close> and is not among the sources. The phases are the fixed sequence
  \<^verbatim>\<open>Init -> Received -> Dispatched -> Completed -> Validated\<close> of the data model, with the
  absorbing phase \<^verbatim>\<open>Failed\<close>; \<^verbatim>\<open>advance()\<close> moves to the next phase and fails with
  \<^verbatim>\<open>InvalidTransition\<close> after \<^verbatim>\<open>Failed\<close> or past \<^verbatim>\<open>Validated\<close>; \<^verbatim>\<open>fail(reason)\<close> moves to
  \<^verbatim>\<open>Failed\<close> from any phase. \<^verbatim>\<open>run_request\<close> calls \<^verbatim>\<open>advance()\<close> four times, from \<^verbatim>\<open>Init\<close>
  on, and reads \<^verbatim>\<open>session_id\<close>: the properties of \<^verbatim>\<open>run_request\<close> below use that these four
  calls return and keep the \<^verbatim>\<open>session_id\<close>, and nothing else of the machine. The spec also says that five calls from
  \<^verbatim>\<open>Init\<close> reach \<^verbatim>\<open>Validated\<close> and that the sixth fails, which this sequence of five phases
  does not bear out; \<^verbatim>\<open>app/state.py\<close> would decide, and nothing is proved here about the
  number of calls.
\<close>

datatype Phase = Init | Received | Dispatched | Completed | Validated | Failed

record AgentState =
  phase :: Phase
  session_id :: string

definition new_AgentState :: "string \<Rightarrow> AgentState" where
  "new_AgentState sid = \<lparr>phase = Init, session_id = sid\<rparr>"

fun next_phase :: "Phase \<Rightarrow> Phase option" where
  "next_phase Init = Some Received"
| "next_phase Received = Some Dispatched"
| "next_phase Dispatched = Some Completed"
| "next_phase Completed = Some Validated"
| "next_phase Validated = None"
| "next_phase Failed = None"

definition advance :: "AgentState \<Rightarrow> exn + AgentState" where
  "advance s =
     (case next_phase (phase s) of
        None \<Rightarrow> Inl (Exn InvalidTransition ''InvalidTransition'')
      | Some p \<Rightarrow> Inr (s\<lparr>phase := p\<rparr>))"

definition fail :: "string \<Rightarrow> AgentState \<Rightarrow> AgentState" where
  "fail reason s = s\<lparr>phase := Failed\<rparr>"

section \<open>Short-term memory\<close>

text \<open>
  Modelled from the spec: \<^verbatim>\<open>app/memory.py\<close> (class \<^verbatim>\<open>ShortTermMemory\<close>) is imported by
  \<^verbatim>\<open>main.py\<close> and is not among the sources. A conversation item is
  \<^verbatim>\<open>{role, content, timestamp}\<close>; the budget is \<^verbatim>\<open>{max_items, max_tokens}\<close>. The token
  estimate is the cheap approximation the spec names, content length / 4, summed over
  the items. After each append the oldest items are dropped while
  \<^verbatim>\<open>count > max_items\<close> or \<^verbatim>\<open>estimated_token_count(remaining) > max_tokens\<close>. The operations
  carry the names \<^verbatim>\<open>main.py\<close> calls them by: \<^verbatim>\<open>add_conversation\<close> is the spec's \<^verbatim>\<open>add\<close>,
  \<^verbatim>\<open>get_conversation_history\<close> its \<^verbatim>\<open>history\<close>. The timestamp is read from the clock
  and is an argument here.
\<close>

record ConversationItem =
  role :: string
  content :: string
  timestamp :: nat

record ShortTermMemory =
  max_items :: nat
  max_tokens :: nat
  items :: "ConversationItem list"
  memory_session_id :: string

definition new_ShortTermMemory :: "nat \<Rightarrow> nat \<Rightarrow> string \<Rightarrow> ShortTermMemory" where
  "new_ShortTermMemory mi mt sid =
     \<lparr>max_items = mi, max_tokens = mt, items = [], memory_session_id = sid\<rparr>"

definition estimated_token_count :: "ConversationItem list \<Rightarrow> nat" where
  "estimated_token_count xs = sum_list (map (\<lambda>i. length (content i) div 4) xs)"

definition over_budget :: "nat \<Rightarrow> nat \<Rightarrow> ConversationItem list \<Rightarrow> bool" where
  "over_budget mi mt xs \<longleftrightarrow> length xs > mi \<or> estimated_token_count xs > mt"

fun evict :: "nat \<Rightarrow> nat \<Rightarrow> ConversationItem list \<Rightarrow> ConversationItem list" where
  "evict mi mt [] = []"
| "evict mi mt (x # xs) = (if over_budget mi mt (x # xs) then evict mi mt xs else x # xs)"

definition add_conversation ::
  "string \<Rightarrow> string \<Rightarrow> nat \<Rightarrow> ShortTermMemory \<Rightarrow> ShortTermMemory" where
  "add_conversation r c t m =
     m\<lparr>items := evict (max_items m) (max_tokens m)
                   (items m @ [\<lparr>role = r, content = c, timestamp = t\<rparr>])\<rparr>"

definition get_conversation_history :: "ShortTermMemory \<Rightarrow> ConversationItem list" where
  "get_conversation_history m = items m"

text \<open>A sequence of \<^verbatim>\<open>add(role, content)\<close> calls, each with the time it was made at.\<close>

fun add_all :: "(string \<times> string \<times> nat) list \<Rightarrow> ShortTermMemory \<Rightarrow> ShortTermMemory" where
  "add_all [] m = m"
| "add_all ((r, c, t) # calls) m = add_all calls (add_conversation r c t m)"

definition item_of :: "string \<times> string \<times> nat \<Rightarrow> ConversationItem" where
  "item_of call = (case call of (r, c, t) \<Rightarrow> \<lparr>role = r, content = c, timestamp = t\<rparr>)"

section \<open>The request pipeline of main.py\<close>

subsection \<open>Strings and JSON values\<close>

text \<open>
  \<^verbatim>\<open>str.find\<close> and \<^verbatim>\<open>str.rfind\<close> of a single character give the index of its first and
  last occurrence, or \<open>-1\<close>. \<open>py_slice s a b\<close> is \<^verbatim>\<open>s[a:b]\<close> for indices that are not
  negative: it is empty when \<open>b \<le> a\<close>. A string is the list of its characters.
\<close>

definition py_find :: "string \<Rightarrow> char \<Rightarrow> int" where
  "py_find s c = (if c \<in> set s then int (length (takeWhile (\<lambda>x. x \<noteq> c) s)) else - 1)"

definition py_rfind :: "string \<Rightarrow> char \<Rightarrow> int" where
  "py_rfind s c =
     (if c \<in> set s then int (length s) - 1 - int (length (takeWhile (\<lambda>x. x \<noteq> c) (rev s)))
      else - 1)"

definition py_slice :: "'a list \<Rightarrow> int \<Rightarrow> int \<Rightarrow> 'a list" where
  "py_slice s a b = take (nat b - nat a) (drop (nat a) s)"

text \<open>\<^verbatim>\<open>xs[0]\<close> raises \<^verbatim>\<open>IndexError\<close> on an empty list.\<close>

definition py_first :: "'a list \<Rightarrow> exn + 'a" where
  "py_first xs = (case xs of [] \<Rightarrow> Inl (Exn IndexError ''list index out of range'') | x # _ \<Rightarrow> Inr x)"

datatype json =
    JNull | JBool bool | JNumber rat | JString string
  | JArray "json list" | JObject "(string \<times> json) list"

subsection \<open>The trip plan\<close>

text \<open>
  Modelled from the spec: \<^verbatim>\<open>app/models.py\<close> (the pydantic model \<^verbatim>\<open>TripPlan\<close>) is not among
  the sources. The fields are those of the spec's data model and of the output format
  in the system prompt of \<^verbatim>\<open>main.py\<close>; an optional field that is absent is \<open>None\<close>. The
  constructor \<^verbatim>\<open>TripPlan(**response_data)\<close>, which validates, is a parameter of the
  environment below.
\<close>

record ResultEntry =
  title :: string
  snippet :: "string option"
  url :: "string option"
  price_range :: "string option"
  rating :: "rat option"
  category :: "string option"

record TripPlan =
  destination :: string
  travel_dates :: string
  weather :: "json option"
  results :: "ResultEntry list option"
  card_recommendation :: "json option"
  currency_info :: "json option"
  citations :: "string list option"
  next_steps :: "string list option"

text \<open>Python's truth value of an optional list and of an optional string.\<close>

definition truthy :: "'a list option \<Rightarrow> bool" where
  "truthy v = (case v of None \<Rightarrow> False | Some xs \<Rightarrow> xs \<noteq> [])"

text \<open>\<^verbatim>\<open>[r.url for r in trip_plan.results if r.url]\<close>\<close>

definition result_urls :: "ResultEntry list \<Rightarrow> string list" where
  "result_urls rs = map (\<lambda>r. the (url r)) (filter (\<lambda>r. truthy (url r)) rs)"

text \<open>
  Lines 284 to 286:
  \<^verbatim>\<open>if (not trip_plan.citations or trip_plan.citations == []) and trip_plan.results:\<close>
\<close>

definition auto_populate_citations :: "TripPlan \<Rightarrow> TripPlan" where
  "auto_populate_citations p =
     (if (\<not> truthy (citations p) \<or> citations p = Some []) \<and> truthy (results p)
      then p\<lparr>citations := Some (result_urls (the (results p)))\<rparr>
      else p)"

subsection \<open>The environment of a request\<close>

text \<open>
  What \<^verbatim>\<open>run_request\<close> calls and does not define: the configuration check, the kernel
  and its chat service, the completion call, \<^verbatim>\<open>json.loads\<close>, the \<^verbatim>\<open>TripPlan\<close>
  constructor, the identifiers a new state and a new memory get, and the clock. Each
  call either returns or raises.
\<close>

record Env =
  validate_all_config :: "exn option"
  create_kernel :: "exn option"
  fresh_session_id :: string
  fresh_memory_session_id :: string
  time_received :: nat
  time_completed :: nat
  get_service :: "exn option"
  get_chat_message_contents :: "(string \<times> string) list \<Rightarrow> exn + string list"
  json_loads :: "string \<Rightarrow> exn + json"
  TripPlan_init :: "(string \<times> json) list \<Rightarrow> exn + TripPlan"

record LongTermRecord =
  record_session_id :: string
  record_content :: string
  memory_type :: string
  importance_score :: rat
  tags :: "string list"

text \<open>
  The long-term store, when one is given: \<^verbatim>\<open>add_memory\<close> returns or raises. The call
  stands in \<^verbatim>\<open>try: ... except Exception as e: logger.warning(...)\<close>.
\<close>

type_synonym LongTermMemory = "LongTermRecord \<Rightarrow> exn option"

definition best_effort :: "exn option \<Rightarrow> exn option" where
  "best_effort r =
     (case r of
        None \<Rightarrow> None
      | Some e \<Rightarrow> if is_Exception (exn_cls e) then None else Some e)"

definition store_long_term ::
  "LongTermMemory option \<Rightarrow> string \<Rightarrow> string \<Rightarrow> rat \<Rightarrow> string \<Rightarrow> exn option" where
  "store_long_term long_term_memory sid text score tag =
     (case long_term_memory of
        None \<Rightarrow> None
      | Some add_memory \<Rightarrow>
          best_effort (add_memory \<lparr>record_session_id = sid, record_content = text,
            memory_type = ''conversation'', importance_score = score, tags = [tag]\<rparr>))"

text \<open>
  The system prompt (lines 125 to 212) is a constant text; only its first sentence is
  kept here.
\<close>

definition system_message :: string where
  "system_message =
     ''You are a professional AI travel concierge agent with access to real-time tools.''"

definition build_chat_history :: "ConversationItem list \<Rightarrow> string \<Rightarrow> (string \<times> string) list" where
  "build_chat_history history user_input =
     (''system'', system_message) #
     concat (map (\<lambda>item.
        if role item = ''user'' then [(''user'', content item)]
        else if role item = ''assistant'' then [(''assistant'', content item)]
        else []) history)
     @ [(''user'', user_input)]"

subsection \<open>The response envelope\<close>

text \<open>
  The three dictionaries \<^verbatim>\<open>run_request\<close> builds after a response, and the one of its
  last handler. \<^verbatim>\<open>json.dumps\<close> then writes the dictionary as text; the model stops at
  the dictionary. \<open>error_key\<close> is \<^verbatim>\<open>parse_error\<close> or \<^verbatim>\<open>validation_error\<close>.
\<close>

datatype envelope =
    TripPlanResult TripPlan string "string list" string nat
  | RawResponse string string "string list" string string string
  | RequestFailed string string

fun data_quality :: "envelope \<Rightarrow> string option" where
  "data_quality (TripPlanResult plan sid tools q n) = Some q"
| "data_quality (RawResponse raw sid tools q k err) = Some q"
| "data_quality (RequestFailed err st) = None"

fun raw_response :: "envelope \<Rightarrow> string option" where
  "raw_response (RawResponse raw sid tools q k err) = Some raw"
| "raw_response _ = None"

fun trip_plan :: "envelope \<Rightarrow> TripPlan option" where
  "trip_plan (TripPlanResult plan sid tools q n) = Some plan"
| "trip_plan _ = None"

fun error_entry :: "envelope \<Rightarrow> (string \<times> string) option" where
  "error_entry (RawResponse raw sid tools q k err) = Some (k, err)"
| "error_entry (RequestFailed err st) = Some (''error'', err)"
| "error_entry _ = None"

subsection \<open>run_request\<close>

text \<open>
  Lines 87 to 263: everything up to the assistant's text. The result is the state, the
  memory and the text \<^verbatim>\<open>agent_response\<close> the rest of the function works on. The calls of
  \<^verbatim>\<open>logger\<close> are left out, here and below: \<^verbatim>\<open>logging\<close> handles the errors of its handlers
  itself and returns to its caller.
\<close>

definition receive_response ::
  "Env \<Rightarrow> string \<Rightarrow> ShortTermMemory option \<Rightarrow> LongTermMemory option
     \<Rightarrow> exn + (AgentState \<times> ShortTermMemory \<times> string)" where
  "receive_response env user_input memory long_term_memory =
     after (validate_all_config env) (
     after (create_kernel env) (
     let state = new_AgentState (fresh_session_id env);
         memory0 = (case memory of
                      None \<Rightarrow> new_ShortTermMemory 10 4000 (fresh_memory_session_id env)
                    | Some m \<Rightarrow> m);
         memory1 = add_conversation ''user'' user_input (time_received env) memory0
     in
     after (store_long_term long_term_memory (memory_session_id memory1) user_input
              (1 / 2) ''user_input'') (
     and_then (advance state) (\<lambda>state1.
     after (get_service env) (
     and_then (advance state1) (\<lambda>state2.
     and_then (get_chat_message_contents env
                 (build_chat_history (get_conversation_history memory1) user_input)) (\<lambda>response.
     and_then (advance state2) (\<lambda>state3.
     and_then (py_first response) (\<lambda>agent_response.
     let memory2 = add_conversation ''assistant'' (take 500 agent_response)
                     (time_completed env) memory1
     in
     after (store_long_term long_term_memory (memory_session_id memory2)
              (take 500 agent_response) (3 / 5) ''assistant_response'') (
     Inr (state3, memory2, agent_response)))))))))))"

text \<open>
  Lines 268 to 274: the text from the first \<^verbatim>\<open>{\<close> to the last \<^verbatim>\<open>}\<close>, or the
  \<^verbatim>\<open>ValueError\<close> the function raises itself.
\<close>

definition extract_json :: "string \<Rightarrow> exn + string" where
  "extract_json agent_response =
     (let json_start = py_find agent_response CHR ''{'';
          json_end = py_rfind agent_response CHR ''}'' + 1
      in
      if json_start = - 1 \<or> json_end = 0
      then Inl (Exn ValueError ''No JSON found in response'')
      else Inr (py_slice agent_response json_start json_end))"

text \<open>
  Lines 266 to 302, the body of the inner \<^verbatim>\<open>try\<close>. \<^verbatim>\<open>TripPlan(**response_data)\<close> needs a
  mapping: any other value raises \<^verbatim>\<open>TypeError\<close>.
\<close>

definition parse_and_validate ::
  "Env \<Rightarrow> AgentState \<Rightarrow> ShortTermMemory \<Rightarrow> string \<Rightarrow> exn + envelope" where
  "parse_and_validate env state memory agent_response =
     and_then (extract_json agent_response) (\<lambda>json_str.
     and_then (json_loads env json_str) (\<lambda>response_data.
     and_then (case response_data of
                 JObject members \<Rightarrow> TripPlan_init env members
               | _ \<Rightarrow> Inl (Exn TypeError ''argument after ** must be a mapping'')) (\<lambda>plan.
     and_then (advance state) (\<lambda>state4.
     Inr (TripPlanResult (auto_populate_citations plan) (session_id state4)
            [''automatic_via_llm''] ''validated_with_pydantic''
            (length (get_conversation_history memory)))))))"

text \<open>
  Lines 304 to 336, the two handlers of the inner \<^verbatim>\<open>try\<close>:
  \<^verbatim>\<open>except (json_module.JSONDecodeError, ValueError)\<close> first, \<^verbatim>\<open>except Exception\<close> second.
\<close>

definition handle_response ::
  "Env \<Rightarrow> AgentState \<Rightarrow> ShortTermMemory \<Rightarrow> string \<Rightarrow> exn + envelope" where
  "handle_response env state memory agent_response =
     (case parse_and_validate env state memory agent_response of
        Inr result \<Rightarrow> Inr result
      | Inl e \<Rightarrow>
          if is_JSONDecodeError (exn_cls e) \<or> is_ValueError (exn_cls e)
          then Inr (RawResponse agent_response (session_id state) [''automatic_via_llm'']
                      ''unvalidated'' ''parse_error'' (exn_str e))
          else if is_Exception (exn_cls e)
          then Inr (RawResponse agent_response (session_id state) [''automatic_via_llm'']
                      ''validation_failed'' ''validation_error'' (exn_str e))
          else Inl e)"

text \<open>The whole function: the outer \<^verbatim>\<open>try\<close> and its handler (lines 338 to 340).\<close>

definition run_request_body ::
  "Env \<Rightarrow> string \<Rightarrow> ShortTermMemory option \<Rightarrow> LongTermMemory option \<Rightarrow> exn + envelope" where
  "run_request_body env user_input memory long_term_memory =
     and_then (receive_response env user_input memory long_term_memory)
       (\<lambda>(state, memory', agent_response). handle_response env state memory' agent_response)"

definition run_request ::
  "Env \<Rightarrow> string \<Rightarrow> ShortTermMemory option \<Rightarrow> LongTermMemory option \<Rightarrow> exn + envelope" where
  "run_request env user_input memory long_term_memory =
     (case run_request_body env user_input memory long_term_memory of
        Inr result \<Rightarrow> Inr result
      | Inl e \<Rightarrow>
          if is_Exception (exn_cls e) then Inr (RequestFailed (exn_str e) ''failed'')
          else Inl e)"

section \<open>Retrieval (rag/retriever.py)\<close>

text \<open>
  A row of the store's answer has the fields the query selects; \<^verbatim>\<open>r.get('distance')\<close>
  may be \<^verbatim>\<open>None\<close>. The two SQL texts of \<^verbatim>\<open>retrieve\<close> differ in the clause
  \<^verbatim>\<open>AND c.pk = @pk\<close> only; a query is its parameters: \<^verbatim>\<open>@k\<close> of \<^verbatim>\<open>SELECT TOP @k\<close>,
  \<^verbatim>\<open>@queryVector\<close> of \<^verbatim>\<open>ORDER BY VectorDistance(c.embedding, @queryVector, false)\<close>, and
  \<^verbatim>\<open>@pk\<close> when the partition clause is there. The store runs the query: a container is
  its \<^verbatim>\<open>query_items\<close>, which returns rows or raises.
\<close>

record Row =
  row_id :: string
  row_text :: string
  row_pk :: string
  distance :: "rat option"

record Query =
  top_k :: int
  queryVector :: "rat list"
  pk :: "string option"

text \<open>
  What \<^verbatim>\<open>embedding_vector.tolist()\<close> or \<^verbatim>\<open>list(embedding_vector)\<close> gives: a list of
  numbers, or a single number when \<^verbatim>\<open>tolist\<close> is called on an array without dimensions.
\<close>

datatype py_vector = PyList "rat list" | PyScalar rat

type_synonym embedding_service = "string \<Rightarrow> exn + py_vector list"

type_synonym container = "Query \<Rightarrow> exn + Row list"

text \<open>
  The two globals of the module, \<^verbatim>\<open>_client\<close> and \<^verbatim>\<open>_container\<close>; both are \<^verbatim>\<open>None\<close> when the
  module is loaded. Of the client only its being \<^verbatim>\<open>None\<close> or not is ever read.
\<close>

record Globals =
  client_global :: "unit option"
  container_global :: "container option"

text \<open>
  The calls of \<^verbatim>\<open>print\<close>, in the order of their lines (19, 22, 40, 64, 121, 125 and 129),
  each with the value its text is formatted from. The texts of lines 19, 22, 40, 121
  and 129 begin with a character outside ASCII.
\<close>

datatype print_call =
    UsingConnectionKey
  | ConnectionFailed exn
  | KernelFailed exn
  | EmbeddingFailed exn
  | RetrievedResults nat
  | ResultLine Row
  | RetrievalFailed exn

text \<open>
  What the module calls and does not define; each call returns or raises.
  \<open>CosmosClient\<close> is the constructor call of line 18, \<open>get_container_client\<close> the chain
  of line 20, \<open>AzureTextEmbedding\<close> the call of \<^verbatim>\<open>kernel.add_service\<close> with the service it
  constructs (lines 31 to 38), \<open>kernel_get_service\<close> the call of line 52, whose result
  is used through \<^verbatim>\<open>generate_embeddings\<close>. The look-ups in \<^verbatim>\<open>os.environ\<close> belong to the call
  whose arguments they are. \<open>py_print\<close> formats a text and writes it to the standard
  output: it raises when the value cannot be formatted or, as \<^verbatim>\<open>UnicodeEncodeError\<close>, when
  the output cannot encode the text.
\<close>

record RagEnv =
  CosmosClient :: "exn option"
  get_container_client :: "exn + container"
  AzureTextEmbedding :: "exn option"
  kernel_get_service :: "exn + embedding_service"
  py_print :: "print_call \<Rightarrow> exn option"

text \<open>
  Lines 18 to 20, the body of the \<^verbatim>\<open>try\<close> of \<^verbatim>\<open>get_cosmos_client\<close>: the exception that
  ended it, if one did, and the globals as they are then.
\<close>

definition connect :: "RagEnv \<Rightarrow> Globals \<Rightarrow> exn option \<times> Globals" where
  "connect env g =
     (case CosmosClient env of
        Some e \<Rightarrow> (Some e, g)
      | None \<Rightarrow>
          (let g1 = g\<lparr>client_global := Some ()\<rparr> in
           case py_print env UsingConnectionKey of
             Some e \<Rightarrow> (Some e, g1)
           | None \<Rightarrow>
               (case get_container_client env of
                  Inl e \<Rightarrow> (Some e, g1)
                | Inr c \<Rightarrow> (None, g1\<lparr>container_global := Some c\<rparr>))))"

text \<open>
  \<^verbatim>\<open>get_cosmos_client\<close>: the pair it returns, or the exception that leaves it, and the
  globals after the call.
\<close>

definition get_cosmos_client ::
  "RagEnv \<Rightarrow> Globals \<Rightarrow> (exn + unit option \<times> container option) \<times> Globals" where
  "get_cosmos_client env g =
     (if client_global g = None
      then
        (case connect env g of
           (None, g1) \<Rightarrow> (Inr (client_global g1, container_global g1), g1)
         | (Some e, g1) \<Rightarrow>
             if is_Exception (exn_cls e)
             then
               (case py_print env (ConnectionFailed e) of
                  Some e' \<Rightarrow> (Inl e', g1)
                | None \<Rightarrow>
                    (Inr (None, None), g1\<lparr>client_global := None, container_global := None\<rparr>))
             else (Inl e, g1))
      else (Inr (client_global g, container_global g), g))"

text \<open>\<^verbatim>\<open>create_embedding_kernel\<close>: the kernel, \<^verbatim>\<open>None\<close> in its place, or an exception.\<close>

definition create_embedding_kernel :: "RagEnv \<Rightarrow> exn + unit option" where
  "create_embedding_kernel env =
     (case AzureTextEmbedding env of
        None \<Rightarrow> Inr (Some ())
      | Some e \<Rightarrow>
          if is_Exception (exn_cls e)
          then after (py_print env (KernelFailed e)) (Inr None)
          else Inl e)"

text \<open>The loop of \<^verbatim>\<open>embed_texts\<close>: one call of the service per text, \<^verbatim>\<open>result[0]\<close> kept.\<close>

fun embed_each :: "embedding_service \<Rightarrow> string list \<Rightarrow> exn + py_vector list" where
  "embed_each service [] = Inr []"
| "embed_each service (t # ts) =
     and_then (service t) (\<lambda>result.
     and_then (py_first result) (\<lambda>embedding_vector.
     and_then (embed_each service ts) (\<lambda>embeddings.
     Inr (embedding_vector # embeddings))))"

text \<open>Lines 48 to 62, the body of the \<^verbatim>\<open>try\<close> of \<^verbatim>\<open>embed_texts\<close>.\<close>

definition embed_texts_body :: "RagEnv \<Rightarrow> string list \<Rightarrow> exn + py_vector list" where
  "embed_texts_body env texts =
     and_then (create_embedding_kernel env) (\<lambda>kernel.
     case kernel of
       None \<Rightarrow> Inl (Exn Exception ''Failed to create embedding kernel'')
     | Some _ \<Rightarrow>
         and_then (kernel_get_service env) (\<lambda>embedding_service.
         embed_each embedding_service texts))"

definition embed_texts :: "RagEnv \<Rightarrow> string list \<Rightarrow> exn + py_vector list" where
  "embed_texts env texts =
     (case embed_texts_body env texts of
        Inr embeddings \<Rightarrow> Inr embeddings
      | Inl e \<Rightarrow>
          if is_Exception (exn_cls e)
          then after (py_print env (EmbeddingFailed e))
                 (Inl (Exn Exception (''Failed to generate embeddings: '' @ exn_str e)))
          else Inl e)"

definition apostrophe :: char where
  "apostrophe = CHR 0x27"

definition type_name :: "py_vector \<Rightarrow> string" where
  "type_name v =
     ''<class '' @ [apostrophe] @ (case v of PyList _ \<Rightarrow> ''list'' | PyScalar _ \<Rightarrow> ''float'')
       @ [apostrophe] @ ''>''"

text \<open>The loop of lines 122 to 125: one line printed per row.\<close>

fun print_results :: "RagEnv \<Rightarrow> Row list \<Rightarrow> exn option" where
  "print_results env [] = None"
| "print_results env (r # rs) =
     (case py_print env (ResultLine r) of
        Some e \<Rightarrow> Some e
      | None \<Rightarrow> print_results env rs)"

text \<open>
  Lines 76 to 127: what \<^verbatim>\<open>retrieve\<close> does once it holds a client and a container.
\<close>

definition search ::
  "RagEnv \<Rightarrow> container \<Rightarrow> string \<Rightarrow> int \<Rightarrow> string option \<Rightarrow> exn + Row list" where
  "search env query_items query k partition_key =
     and_then (embed_texts env [query]) (\<lambda>query_embedding.
     let query_vector = (if query_embedding \<noteq> [] then hd query_embedding else PyList []) in
     (case query_vector of
        PyScalar x \<Rightarrow> Inl (Exn ValueError (''Invalid embedding format: '' @ type_name query_vector))
      | PyList xs \<Rightarrow>
          if xs = []
          then Inl (Exn ValueError (''Invalid embedding format: '' @ type_name query_vector))
          else if length xs = 0 then Inl (Exn ValueError ''Empty embedding vector'')
          else
            and_then (query_items \<lparr>top_k = k, queryVector = xs,
                        pk = (if truthy partition_key then partition_key else None)\<rparr>)
              (\<lambda>rows.
            after (py_print env (RetrievedResults (length rows))) (
            after (print_results env rows) (
            Inr rows)))))"

text \<open>
  Lines 70 to 127, the body of the \<^verbatim>\<open>try\<close> of \<^verbatim>\<open>retrieve\<close>, and \<^verbatim>\<open>retrieve\<close> with its
  handler (lines 128 to 130), which prints before it returns. Both give the globals
  after the call beside the outcome.
\<close>

definition retrieve_body ::
  "RagEnv \<Rightarrow> Globals \<Rightarrow> string \<Rightarrow> int \<Rightarrow> string option \<Rightarrow> (exn + Row list) \<times> Globals" where
  "retrieve_body env g query k partition_key =
     (case get_cosmos_client env g of
        (Inl e, g') \<Rightarrow> (Inl e, g')
      | (Inr (Some client, Some query_items), g') \<Rightarrow>
          (search env query_items query k partition_key, g')
      | (Inr _, g') \<Rightarrow> (Inl (Exn Exception ''Cosmos DB not available''), g'))"

definition retrieve ::
  "RagEnv \<Rightarrow> Globals \<Rightarrow> string \<Rightarrow> int \<Rightarrow> string option \<Rightarrow> (exn + Row list) \<times> Globals" where
  "retrieve env g query k partition_key =
     (case retrieve_body env g query k partition_key of
        (Inr rows, g') \<Rightarrow> (Inr rows, g')
      | (Inl e, g') \<Rightarrow>
          if is_Exception (exn_cls e)
          then (after (py_print env (RetrievalFailed e)) (Inr []), g')
          else (Inl e, g'))"


section \<open>Numbers\<close>

text \<open>
  A Python number, an \<^verbatim>\<open>int\<close> or a \<^verbatim>\<open>float\<close> as \<^verbatim>\<open>json\<close> decodes them and as arithmetic
  returns them, is the rational number it stands for, or one of the three floats that
  stand for none. \<^verbatim>\<open>0\<close>, \<^verbatim>\<open>0.0\<close> and \<^verbatim>\<open>-0.0\<close> are the same number here. Comparison is exact
  in Python, between a \<^verbatim>\<open>float\<close> and an \<^verbatim>\<open>int\<close> too: \<open>py_less a b\<close> is \<^verbatim>\<open>a < b\<close> and
  \<open>py_greater a b\<close> is \<^verbatim>\<open>a > b\<close>; both are false when an operand is \<^verbatim>\<open>nan\<close>.
\<close>

datatype number = Finite rat | PosInf | NegInf | NaN

fun py_less :: "number \<Rightarrow> number \<Rightarrow> bool" where
  "py_less (Finite a) (Finite b) = (a < b)"
| "py_less (Finite a) PosInf = True"
| "py_less NegInf (Finite b) = True"
| "py_less NegInf PosInf = True"
| "py_less _ _ = False"

definition py_greater :: "number \<Rightarrow> number \<Rightarrow> bool" where
  "py_greater a b = py_less b a"

text \<open>
  What the two tools leave to the interpreter and its platform. Arithmetic on floats
  rounds: \<^verbatim>\<open>sum\<close> of a list (it may raise \<^verbatim>\<open>OverflowError\<close> when an \<^verbatim>\<open>int\<close> is too large for
  a \<^verbatim>\<open>float\<close>, and the order in which it adds depends on the version), \<^verbatim>\<open>+\<close> of two floats,
  \<^verbatim>\<open>/\<close> by a number that is not zero (it may raise \<^verbatim>\<open>OverflowError\<close> too) and
  \<^verbatim>\<open>round(x, n)\<close>, which gives the float nearest to a decimal. \<^verbatim>\<open>str.upper\<close> and
  \<^verbatim>\<open>str.strip\<close> follow the Unicode tables of the interpreter. The text of the
  \<^verbatim>\<open>ValueError\<close> that \<^verbatim>\<open>max\<close> raises on an empty argument depends on the version.
\<close>

record Interpreter =
  builtin_sum :: "number list \<Rightarrow> exn + number"
  float_add :: "number \<Rightarrow> number \<Rightarrow> number"
  truediv :: "number \<Rightarrow> number \<Rightarrow> exn + number"
  builtin_round :: "number \<Rightarrow> nat \<Rightarrow> number"
  str_upper :: "string \<Rightarrow> string"
  str_strip :: "string \<Rightarrow> string"
  max_empty_message :: string

text \<open>
  \<^verbatim>\<open>a / b\<close> raises \<^verbatim>\<open>ZeroDivisionError\<close> when \<open>b\<close> is zero (its text differs between
  \<^verbatim>\<open>int\<close> and \<^verbatim>\<open>float\<close> operands and between versions; no call below gets there).
  \<^verbatim>\<open>round(x, n)\<close> of a zero is zero, of whatever type.
\<close>

definition py_truediv :: "Interpreter \<Rightarrow> number \<Rightarrow> number \<Rightarrow> exn + number" where
  "py_truediv py a b =
     (if b = Finite 0 then Inl (Exn ZeroDivisionError ''division by zero'') else truediv py a b)"

definition py_round :: "Interpreter \<Rightarrow> number \<Rightarrow> nat \<Rightarrow> number" where
  "py_round py x n = (if x = Finite 0 then Finite 0 else builtin_round py x n)"

section \<open>Weather tool (tools/weather.py)\<close>

definition interpret_code :: "int \<Rightarrow> string" where
  "interpret_code code =
     (if code \<le> 1 then ''sunny''
      else if code \<le> 3 then ''cloudy''
      else if code > 50 then ''rainy''
      else ''mixed'')"

text \<open>
  \<^verbatim>\<open>condition_counts\<close> is a dictionary: its keys stand in the order they were first
  stored in. \<open>AList.update\<close> replaces the value of a key in place and puts a new key
  last.
\<close>

definition dict_get :: "(string \<times> nat) list \<Rightarrow> string \<Rightarrow> nat \<Rightarrow> nat" where
  "dict_get d k dflt = (case map_of d k of None \<Rightarrow> dflt | Some v \<Rightarrow> v)"

fun count_conditions :: "(string \<times> nat) list \<Rightarrow> string list \<Rightarrow> (string \<times> nat) list" where
  "count_conditions d [] = d"
| "count_conditions d (c # cs) = count_conditions (AList.update c (dict_get d c 0 + 1) d) cs"

text \<open>
  \<^verbatim>\<open>max(iterable, key=f)\<close> keeps the first item of the largest key: a later item
  replaces the best one only when its key is strictly larger. On an empty iterable it
  raises \<^verbatim>\<open>ValueError\<close>.
\<close>

fun max_by :: "('a \<Rightarrow> nat) \<Rightarrow> 'a \<Rightarrow> 'a list \<Rightarrow> 'a" where
  "max_by f best [] = best"
| "max_by f best (x # xs) = max_by f (if f x > f best then x else best) xs"

definition py_max :: "Interpreter \<Rightarrow> ('a \<Rightarrow> nat) \<Rightarrow> 'a list \<Rightarrow> exn + 'a" where
  "py_max py f xs =
     (case xs of
        [] \<Rightarrow> Inl (Exn ValueError (max_empty_message py))
      | x # rest \<Rightarrow> Inr (max_by f x rest))"

definition dominant :: "Interpreter \<Rightarrow> string list \<Rightarrow> exn + string" where
  "dominant py conditions_list =
     (let condition_counts = count_conditions [] conditions_list
      in py_max py (\<lambda>c. dict_get condition_counts c 0) (map fst condition_counts))"

text \<open>
  The elements of a list, once each, in the order of their first occurrence: the order
  in which a dictionary filled from the list holds its keys.
\<close>

fun first_seen :: "'a list \<Rightarrow> 'a list" where
  "first_seen [] = []"
| "first_seen (x # xs) = x # filter (\<lambda>y. y \<noteq> x) (first_seen xs)"

definition recommendation_for :: "string \<Rightarrow> string" where
  "recommendation_for dominant_condition =
     (if dominant_condition = ''sunny''
      then ''Great weather! Pack sunscreen and light clothing.''
      else if dominant_condition = ''cloudy''
      then ''Expect overcast skies. Bring layers for varying temperatures.''
      else if dominant_condition = ''rainy''
      then ''Rain expected. Pack an umbrella and waterproof jacket.''
      else ''Mixed conditions expected. Pack for various weather types.'')"

text \<open>Lines 105 to 108: \<^verbatim>\<open>if avg_temp < 10: ... elif avg_temp > 30: ...\<close>\<close>

definition temperature_advice :: "number \<Rightarrow> string" where
  "temperature_advice avg_temp =
     (if py_less avg_temp (Finite 10) then '' Cold temperatures - bring warm clothing.''
      else if py_greater avg_temp (Finite 30) then '' Hot weather - stay hydrated and seek shade.''
      else [])"

record GeoResult =
  latitude :: rat
  longitude :: rat
  geo_name :: "string option"
  geo_country :: "string option"

record Daily =
  temperature_2m_max :: "number list"
  temperature_2m_min :: "number list"
  weathercode :: "int list"

text \<open>
  The two HTTP calls, each with \<^verbatim>\<open>raise_for_status()\<close> and \<^verbatim>\<open>json()\<close>: the geocoding
  answer is its \<^verbatim>\<open>results\<close> list (\<open>None\<close> when the key is missing), the forecast answer
  its \<^verbatim>\<open>daily\<close> block (a missing list is empty, as \<^verbatim>\<open>daily.get(..., [])\<close> reads it). The
  lists hold numbers, as the forecast API documents them.
\<close>

record WeatherEnv =
  geocoding_api :: "string \<Rightarrow> exn + GeoResult list option"
  forecast_api :: "rat \<Rightarrow> rat \<Rightarrow> exn + Daily"

text \<open>
  The tool's answer: the forecast summary (city, country, temperature_c,
  temperature_max_c, temperature_min_c, conditions, recommendation, forecast_days), or
  the degraded shape (error, conditions, recommendation; temperature_c is null).
\<close>

datatype weather_output =
    WeatherReport string string number number number string string nat
  | WeatherUnavailable string string string

fun conditions :: "weather_output \<Rightarrow> string" where
  "conditions (WeatherReport city country t tmax tmin cond rec days) = cond"
| "conditions (WeatherUnavailable err cond rec) = cond"

fun recommendation :: "weather_output \<Rightarrow> string" where
  "recommendation (WeatherReport city country t tmax tmin cond rec days) = rec"
| "recommendation (WeatherUnavailable err cond rec) = rec"

text \<open>Lines 71 and 72: \<^verbatim>\<open>sum(temps) / len(temps)\<close>\<close>

definition average :: "Interpreter \<Rightarrow> number list \<Rightarrow> exn + number" where
  "average py xs =
     and_then (builtin_sum py xs) (\<lambda>total. py_truediv py total (Finite (of_nat (length xs))))"

text \<open>Step 3 of \<^verbatim>\<open>get_weather\<close> (lines 57 to 122): the work on the daily lists.\<close>

definition summarize_forecast ::
  "Interpreter \<Rightarrow> string \<Rightarrow> string \<Rightarrow> Daily \<Rightarrow> exn + weather_output" where
  "summarize_forecast py city_name country daily =
     (let temps_max = temperature_2m_max daily;
          temps_min = temperature_2m_min daily;
          weather_codes = weathercode daily
      in
      if temps_max = [] \<or> temps_min = []
      then Inr (WeatherUnavailable ''No temperature data available'' ''unknown''
                  ''Unable to get weather data'')
      else
        and_then (average py temps_max) (\<lambda>avg_max.
        and_then (average py temps_min) (\<lambda>avg_min.
        and_then (py_truediv py (float_add py avg_max avg_min) (Finite 2)) (\<lambda>avg_temp.
        and_then (dominant py (map interpret_code weather_codes)) (\<lambda>dominant_condition.
        Inr (WeatherReport city_name country (py_round py avg_temp 1) (py_round py avg_max 1)
               (py_round py avg_min 1) dominant_condition
               (recommendation_for dominant_condition @ temperature_advice avg_temp)
               (length temps_max)))))))"

definition get_weather_body :: "Interpreter \<Rightarrow> WeatherEnv \<Rightarrow> string \<Rightarrow> exn + weather_output" where
  "get_weather_body py env city =
     and_then (geocoding_api env city) (\<lambda>geocode_results.
     case geocode_results of
       Some (place # _) \<Rightarrow>
         and_then (forecast_api env (latitude place) (longitude place)) (\<lambda>daily.
         summarize_forecast py (case geo_name place of None \<Rightarrow> city | Some n \<Rightarrow> n)
           (case geo_country place of None \<Rightarrow> [] | Some c \<Rightarrow> c) daily)
     | _ \<Rightarrow>
         Inr (WeatherUnavailable (''City '' @ [apostrophe] @ city @ [apostrophe] @ '' not found'')
                ''unknown'' ''Unable to get weather data''))"

definition get_weather :: "Interpreter \<Rightarrow> WeatherEnv \<Rightarrow> string \<Rightarrow> exn + weather_output" where
  "get_weather py env city =
     (case get_weather_body py env city of
        Inr result \<Rightarrow> Inr result
      | Inl e \<Rightarrow>
          if is_RequestException (exn_cls e)
          then Inr (WeatherUnavailable (''Weather API request failed: '' @ exn_str e) ''unknown''
                      ''Unable to fetch weather data'')
          else if is_Exception (exn_cls e)
          then Inr (WeatherUnavailable (''Weather tool error: '' @ exn_str e) ''unknown''
                      ''An error occurred'')
          else Inl e)"

section \<open>Currency tool (tools/fx.py)\<close>








section \<open>Concrete inputs\<close>

text \<open>
  A reply of the assistant that holds one JSON object, what \<^verbatim>\<open>json.loads\<close> makes of
  that object, and the plan \<^verbatim>\<open>TripPlan\<close> makes of it. The two functions below answer
  for this one object and raise for every other argument, as \<^verbatim>\<open>json.loads\<close> and the
  constructor raise on what they do not accept.
\<close>

definition sample_json :: string where
  \<open>sample_json = ''{"destination": "Paris", "travel_dates": "May", "results": [{"title": "A", "url": "https://a.example"}, {"title": "B", "url": ""}, {"title": "C", "url": "https://c.example"}], "citations": []}''\<close>

definition sample_reply :: string where
  "sample_reply = ''Here is your plan: '' @ sample_json @ '' Enjoy!''"

definition sample_members :: "(string \<times> json) list" where
  "sample_members =
     [(''destination'', JString ''Paris''), (''travel_dates'', JString ''May''),
      (''results'', JArray
         [JObject [(''title'', JString ''A''), (''url'', JString ''https://a.example'')],
          JObject [(''title'', JString ''B''), (''url'', JString [])],
          JObject [(''title'', JString ''C''), (''url'', JString ''https://c.example'')]]),
      (''citations'', JArray [])]"

definition sample_entry :: "string \<Rightarrow> string \<Rightarrow> ResultEntry" where
  "sample_entry t u =
     \<lparr>title = t, snippet = None, url = Some u, price_range = None, rating = None,
      category = None\<rparr>"

definition sample_plan :: TripPlan where
  "sample_plan =
     \<lparr>destination = ''Paris'', travel_dates = ''May'', weather = None,
      results = Some [sample_entry ''A'' ''https://a.example'', sample_entry ''B'' [],
                      sample_entry ''C'' ''https://c.example''],
      card_recommendation = None, currency_info = None, citations = Some [],
      next_steps = None\<rparr>"

definition sample_loads :: "string \<Rightarrow> exn + json" where
  "sample_loads s =
     (if s = sample_json then Inr (JObject sample_members)
      else if s = ''{broken}''
      then Inl (Exn JSONDecodeError
             ''Expecting property name enclosed in double quotes: line 1 column 2 (char 1)'')
      else Inl (Exn JSONDecodeError ''Expecting value: line 1 column 1 (char 0)''))"

definition sample_init :: "(string \<times> json) list \<Rightarrow> exn + TripPlan" where
  "sample_init members =
     (if members = sample_members then Inr sample_plan
      else Inl (Exn ValidationError ''validation error for TripPlan''))"

text \<open>
  An environment in which the configuration, the kernel and the chat service are
  there; the completion call ends as \<open>completion\<close> says.
\<close>

definition sample_env :: "exn + string list \<Rightarrow> Env" where
  "sample_env completion =
     \<lparr>validate_all_config = None, create_kernel = None, fresh_session_id = ''session-1'',
      fresh_memory_session_id = ''memory-1'', time_received = 1, time_completed = 2,
      get_service = None, get_chat_message_contents = (\<lambda>history. completion),
      json_loads = sample_loads, TripPlan_init = sample_init\<rparr>"

text \<open>
  A reply that is one JSON object whose value is nested a hundred thousand arrays deep.
  The text is well-formed JSON; \<^verbatim>\<open>json.loads\<close> gives up on it with \<^verbatim>\<open>RecursionError\<close>, as
  \<open>deep_loads\<close> does.
\<close>

definition deep_json :: string where
  \<open>deep_json = ''{"a": '' @ replicate 100000 (CHR ''['') @ replicate 100000 (CHR '']'') @ ''}''\<close>

definition deep_loads :: "string \<Rightarrow> exn + json" where
  "deep_loads s =
     (if s = deep_json
      then Inl (Exn RecursionError
             ''maximum recursion depth exceeded while decoding a JSON array from a unicode string'')
      else sample_loads s)"

definition deep_env :: Env where
  "deep_env = (sample_env (Inr [deep_json]))\<lparr>json_loads := deep_loads\<rparr>"

text \<open>The state and the memory of a first request once the reply is there.\<close>

definition sample_state :: AgentState where
  "sample_state = \<lparr>phase = Completed, session_id = ''session-1''\<rparr>"

definition sample_memory :: "string \<Rightarrow> string \<Rightarrow> ShortTermMemory" where
  "sample_memory user_input reply =
     \<lparr>max_items = 10, max_tokens = 4000,
      items = [\<lparr>role = ''user'', content = user_input, timestamp = 1\<rparr>,
               \<lparr>role = ''assistant'', content = take 500 reply, timestamp = 2\<rparr>],
      memory_session_id = ''memory-1''\<rparr>"

text \<open>A memory of two items at most, and three calls of \<^verbatim>\<open>add\<close>.\<close>

definition small_memory :: ShortTermMemory where
  "small_memory = new_ShortTermMemory 2 100 ''memory-1''"

definition three_calls :: "(string \<times> string \<times> nat) list" where
  "three_calls = [(''user'', ''one'', 1), (''assistant'', ''two'', 2), (''user'', ''three'', 3)]"

text \<open>
  Rows of a store, ranked; the globals of a module just loaded; an environment in which
  the store and the embedding service are there and every \<^verbatim>\<open>print\<close> returns; an
  embedding service that answers with one vector; a store that answers with the first
  \<^verbatim>\<open>@k\<close> of the ranked rows.
\<close>

definition sample_row :: "string \<Rightarrow> rat \<Rightarrow> Row" where
  "sample_row i d = \<lparr>row_id = i, row_text = ''BankGold'', row_pk = ''cards'', distance = Some d\<rparr>"

definition ranked_rows :: "Row list" where
  "ranked_rows = [sample_row ''doc-2'' (1 / 10), sample_row ''doc-6'' (1 / 5),
                  sample_row ''doc-4'' (3 / 10), sample_row ''doc-3'' (1 / 2),
                  sample_row ''doc-5'' (7 / 10), sample_row ''doc-1'' (9 / 10)]"

definition module_loaded :: Globals where
  "module_loaded = \<lparr>client_global = None, container_global = None\<rparr>"

definition sample_rag_env :: "embedding_service \<Rightarrow> container \<Rightarrow> RagEnv" where
  "sample_rag_env service query_items =
     \<lparr>CosmosClient = None, get_container_client = Inr query_items, AzureTextEmbedding = None,
      kernel_get_service = Inr service, py_print = (\<lambda>c. None)\<rparr>"

text \<open>
  A standard output that encodes ASCII only: \<^verbatim>\<open>print\<close> raises \<^verbatim>\<open>UnicodeEncodeError\<close> on
  the five texts that begin with a character outside ASCII (U+2705 or U+274C) and
  prints the other two.
\<close>

definition cannot_encode :: "string \<Rightarrow> exn" where
  "cannot_encode code =
     Exn UnicodeEncodeError
       ([apostrophe] @ ''ascii'' @ [apostrophe] @ '' codec can'' @ [apostrophe]
        @ ''t encode character '' @ [apostrophe] @ [CHR 0x5C] @ code @ [apostrophe]
        @ '' in position 0: ordinal not in range(128)'')"

definition ascii_stdout :: "print_call \<Rightarrow> exn option" where
  "ascii_stdout c =
     (case c of
        UsingConnectionKey \<Rightarrow> Some (cannot_encode ''u2705'')
      | ConnectionFailed e \<Rightarrow> Some (cannot_encode ''u274c'')
      | KernelFailed e \<Rightarrow> Some (cannot_encode ''u274c'')
      | EmbeddingFailed e \<Rightarrow> None
      | RetrievedResults n \<Rightarrow> Some (cannot_encode ''u2705'')
      | ResultLine r \<Rightarrow> None
      | RetrievalFailed e \<Rightarrow> Some (cannot_encode ''u274c''))"

definition unit_embedding :: embedding_service where
  "unit_embedding t = Inr [PyList [1, 0]]"

definition top_k_store :: container where
  "top_k_store q = Inr (take (nat (top_k q)) ranked_rows)"

text \<open>
  An interpreter for the examples below. Its arithmetic is exact on finite numbers and
  its \<^verbatim>\<open>round\<close> is the decimal rounding, a tie going to the even neighbour; on the
  numbers of the examples (whole numbers, and the quotient 3/4) this is what float
  arithmetic gives, every result being a float itself. Its \<^verbatim>\<open>upper\<close> and \<^verbatim>\<open>strip\<close> are
  the ones of ASCII text.
\<close>

fun exact_add :: "number \<Rightarrow> number \<Rightarrow> number" where
  "exact_add (Finite a) (Finite b) = Finite (a + b)"
| "exact_add _ _ = NaN"

fun exact_div :: "number \<Rightarrow> number \<Rightarrow> exn + number" where
  "exact_div (Finite a) (Finite b) =
     (if b = 0 then Inl (Exn ZeroDivisionError ''division by zero'') else Inr (Finite (a / b)))"
| "exact_div _ _ = Inr NaN"

definition round_half_even :: "rat \<Rightarrow> int" where
  "round_half_even y =
     (let f = \<lfloor>y\<rfloor>; d = y - of_int f
      in if d < 1 / 2 then f else if d > 1 / 2 then f + 1 else if even f then f else f + 1)"

fun decimal_round :: "number \<Rightarrow> nat \<Rightarrow> number" where
  "decimal_round (Finite x) n = Finite (of_int (round_half_even (x * 10 ^ n)) / 10 ^ n)"
| "decimal_round x n = x"

definition ascii_upper :: "string \<Rightarrow> string" where
  "ascii_upper s =
     map (\<lambda>c. let n = (of_char c :: nat) in if 97 \<le> n \<and> n \<le> 122 then char_of (n - 32) else c) s"

definition is_space :: "char \<Rightarrow> bool" where
  "is_space c = (let n = (of_char c :: nat) in (9 \<le> n \<and> n \<le> 13) \<or> (28 \<le> n \<and> n \<le> 32))"

definition ascii_strip :: "string \<Rightarrow> string" where
  "ascii_strip s = rev (dropWhile is_space (rev (dropWhile is_space s)))"

definition sample_interpreter :: Interpreter where
  "sample_interpreter =
     \<lparr>builtin_sum = (\<lambda>xs. Inr (foldl exact_add (Finite 0) xs)), float_add = exact_add,
      truediv = exact_div, builtin_round = decimal_round, str_upper = ascii_upper,
      str_strip = ascii_strip, max_empty_message = ''max() arg is an empty sequence''\<rparr>"

text \<open>
  A geocoding service that answers every city with Paris, and a forecast service that
  answers every place with the given forecast; \<open>week\<close> is a forecast of seven days
  with the given codes.
\<close>

definition sample_weather_env :: "Daily \<Rightarrow> WeatherEnv" where
  "sample_weather_env daily =
     \<lparr>geocoding_api = (\<lambda>city. Inr (Some [\<lparr>latitude = 4886 / 100, longitude = 235 / 100,
                                             geo_name = Some ''Paris'', geo_country = Some ''France''\<rparr>])),
      forecast_api = (\<lambda>lat lon. Inr daily)\<rparr>"

definition week :: "int list \<Rightarrow> Daily" where
  "week codes =
     \<lparr>temperature_2m_max = map Finite [8, 9, 10, 11, 9, 8, 8],
      temperature_2m_min = map Finite [2, 3, 4, 5, 3, 2, 2],
      weathercode = codes\<rparr>"


section \<open>Properties of the short-term memory\<close>

lemma over_budget_Nil: "\<not> over_budget mi mt []"
  by (simp add: over_budget_def estimated_token_count_def)

lemma evict_suffix: "suffix (evict mi mt xs) xs"
  by (induction xs) (auto intro: suffix_ConsI)

lemma evict_within_budget: "\<not> over_budget mi mt (evict mi mt xs)"
  by (induction xs) (auto simp: over_budget_Nil)

lemma add_conversation_budget:
  "max_items (add_conversation r c t m) = max_items m"
  "max_tokens (add_conversation r c t m) = max_tokens m"
  by (simp_all add: add_conversation_def)

lemma add_all_suffix:
  "suffix (items (add_all calls m)) (items m @ map item_of calls)"
proof (induction calls m rule: add_all.induct)
  case (1 m)
  then show ?case by simp
next
  case (2 r c t calls m)
  let ?m' = "add_conversation r c t m"
  have "items ?m' = evict (max_items m) (max_tokens m) (items m @ [item_of (r, c, t)])"
    by (simp add: add_conversation_def item_of_def)
  then have "suffix (items ?m') (items m @ [item_of (r, c, t)])"
    by (simp only: evict_suffix)
  then have "suffix (items ?m' @ map item_of calls)
               ((items m @ [item_of (r, c, t)]) @ map item_of calls)"
    by (auto simp: suffix_def)
  with 2 show ?case
    by (auto intro: suffix_order.trans)
qed

lemma add_all_within_budget:
  "calls \<noteq> [] \<Longrightarrow>
     \<not> over_budget (max_items m) (max_tokens m) (items (add_all calls m))"
proof (induction calls m rule: add_all.induct)
  case (1 m)
  then show ?case by simp
next
  case (2 r c t calls m)
  show ?case
  proof (cases "calls = []")
    case True
    then show ?thesis by (simp add: add_conversation_def evict_within_budget)
  next
    case False
    with 2 show ?thesis by (simp add: add_conversation_budget)
  qed
qed

text \<open>
  C8: after any sequence of \<^verbatim>\<open>add(role, content)\<close> calls the history is a suffix of
  everything that was ever in the memory, in the same order: exactly the most recent
  items, the oldest first. After at least one call the history is within the budget,
  so when the accumulated items exceed \<^verbatim>\<open>max_items\<close> or their estimated token count
  exceeds \<^verbatim>\<open>max_tokens\<close>, items were dropped, and only from the front.
\<close>

theorem memory_keeps_most_recent:
  assumes "everything = get_conversation_history m @ map item_of calls"
    and "kept = get_conversation_history (add_all calls m)"
  shows "suffix kept everything
    \<and> kept = drop (length everything - length kept) everything
    \<and> (calls \<noteq> [] \<longrightarrow> \<not> over_budget (max_items m) (max_tokens m) kept)
    \<and> (calls \<noteq> [] \<and> over_budget (max_items m) (max_tokens m) everything
          \<longrightarrow> length kept < length everything)"
proof -
  have s: "suffix kept everything"
    using assms add_all_suffix by (simp add: get_conversation_history_def)
  then obtain pre where pre: "everything = pre @ kept"
    by (auto simp: suffix_def)
  have d: "kept = drop (length everything - length kept) everything"
    by (simp add: pre)
  have b: "calls \<noteq> [] \<Longrightarrow> \<not> over_budget (max_items m) (max_tokens m) kept"
    using assms add_all_within_budget by (simp add: get_conversation_history_def)
  have l: "calls \<noteq> [] \<Longrightarrow> over_budget (max_items m) (max_tokens m) everything
          \<Longrightarrow> length kept < length everything"
  proof -
    assume c: "calls \<noteq> []" and o: "over_budget (max_items m) (max_tokens m) everything"
    from b [OF c] o have "kept \<noteq> everything" by auto
    with pre have "pre \<noteq> []" by auto
    with pre show ?thesis by simp
  qed
  from s d b l show ?thesis by blast
qed

theorem memory_keeps_most_recent_witness:
  "three_calls \<noteq> []
   \<and> over_budget (max_items small_memory) (max_tokens small_memory)
       (get_conversation_history small_memory @ map item_of three_calls)
   \<and> get_conversation_history (add_all three_calls small_memory) = map item_of (drop 1 three_calls)
   \<and> suffix (get_conversation_history (add_all three_calls small_memory))
       (get_conversation_history small_memory @ map item_of three_calls)
   \<and> length (get_conversation_history (add_all three_calls small_memory))
       < length (get_conversation_history small_memory @ map item_of three_calls)"
  using memory_keeps_most_recent [OF refl refl, where m = small_memory and calls = three_calls]
  by (simp add: three_calls_def small_memory_def new_ShortTermMemory_def add_conversation_def
      over_budget_def estimated_token_count_def item_of_def get_conversation_history_def)

section \<open>Properties of the response pipeline\<close>

lemma takeWhile_shorter: "c \<in> set xs \<Longrightarrow> length (takeWhile (\<lambda>x. x \<noteq> c) xs) < length xs"
  by (induction xs) auto

lemma py_find_missing: "py_find s c = - 1 \<longleftrightarrow> c \<notin> set s"
  by (simp add: py_find_def)

lemma py_rfind_missing: "py_rfind s c + 1 = 0 \<longleftrightarrow> c \<notin> set s"
  using takeWhile_shorter [of c "rev s"] by (auto simp: py_rfind_def)

lemma extract_json_Inl:
  "extract_json reply = Inl e \<longleftrightarrow>
     (CHR ''{'' \<notin> set reply \<or> CHR ''}'' \<notin> set reply) \<and> e = Exn ValueError ''No JSON found in response''"
  using py_find_missing [of reply "CHR ''{''"] py_rfind_missing [of reply "CHR ''}''"]
  by (auto simp: extract_json_def Let_def)

lemma received_state:
  assumes "receive_response env user_input memory ltm = Inr (state, memory', reply)"
  shows "phase state = Completed \<and> session_id state = fresh_session_id env"
  using assms
  by (auto simp: receive_response_def after_def and_then_def advance_def new_AgentState_def Let_def
      split: option.splits sum.splits)

lemma handle_response_escapes:
  "handle_response env state memory reply = Inl e \<Longrightarrow> \<not> is_Exception (exn_cls e)"
  by (auto simp: handle_response_def split: sum.splits if_splits)

lemma run_request_after_response:
  assumes "receive_response env user_input memory ltm = Inr (state, memory', reply)"
  shows "run_request env user_input memory ltm = handle_response env state memory' reply"
proof (cases "handle_response env state memory' reply")
  case (Inl e)
  with assms handle_response_escapes [OF Inl] show ?thesis
    by (simp add: run_request_def run_request_body_def and_then_def)
next
  case (Inr r)
  with assms show ?thesis
    by (simp add: run_request_def run_request_body_def and_then_def)
qed

lemma handle_response_no_json:
  assumes "extract_json reply = Inl e"
  shows "handle_response env state memory reply =
           Inr (RawResponse reply (session_id state) [''automatic_via_llm''] ''unvalidated''
                  ''parse_error'' ''No JSON found in response'')"
  using assms extract_json_Inl [of reply e]
  by (simp add: handle_response_def parse_and_validate_def and_then_def)

lemma handle_response_decode_error:
  assumes "extract_json reply = Inr js" and "json_loads env js = Inl e"
    and "is_ValueError (exn_cls e)"
  shows "handle_response env state memory reply =
           Inr (RawResponse reply (session_id state) [''automatic_via_llm''] ''unvalidated''
                  ''parse_error'' (exn_str e))"
  using assms by (simp add: handle_response_def parse_and_validate_def and_then_def)

lemma handle_response_valid:
  assumes "extract_json reply = Inr js" and "json_loads env js = Inr (JObject members)"
    and "TripPlan_init env members = Inr plan" and "phase state = Completed"
  shows "handle_response env state memory reply =
           Inr (TripPlanResult (auto_populate_citations plan) (session_id state)
                  [''automatic_via_llm''] ''validated_with_pydantic''
                  (length (get_conversation_history memory)))"
  using assms
  by (simp add: handle_response_def parse_and_validate_def and_then_def advance_def)

lemma handle_response_quality:
  assumes "handle_response env state memory reply = Inr r"
  shows "data_quality r = Some ''validated_with_pydantic''
       \<or> data_quality r = Some ''unvalidated'' \<or> data_quality r = Some ''validation_failed''"
  using assms
  by (auto simp: handle_response_def parse_and_validate_def and_then_def
      split: sum.splits if_splits)

lemma handle_response_validated_only_if:
  assumes "handle_response env state memory reply = Inr r"
    and "data_quality r = Some ''validated_with_pydantic''"
  shows "\<exists>js members plan. extract_json reply = Inr js \<and> json_loads env js = Inr (JObject members)
           \<and> TripPlan_init env members = Inr plan"
  using assms
  by (auto simp: handle_response_def parse_and_validate_def and_then_def
      split: sum.splits if_splits json.splits)

lemma handle_response_other_error:
  assumes "extract_json reply = Inr js"
    and "json_loads env js = Inl e
         \<or> (\<exists>members. json_loads env js = Inr (JObject members) \<and> TripPlan_init env members = Inl e)"
    and "is_Exception (exn_cls e)" and "\<not> is_ValueError (exn_cls e)"
  shows "handle_response env state memory reply =
           Inr (RawResponse reply (session_id state) [''automatic_via_llm''] ''validation_failed''
                  ''validation_error'' (exn_str e))"
  using assms
  by (cases "exn_cls e") (auto simp: handle_response_def parse_and_validate_def and_then_def)

lemma validation_ValueError_tagged_unvalidated:
  assumes "extract_json reply = Inr js" and "json_loads env js = Inr (JObject members)"
    and "TripPlan_init env members = Inl e" and "is_ValueError (exn_cls e)"
  shows "handle_response env state memory reply =
           Inr (RawResponse reply (session_id state) [''automatic_via_llm''] ''unvalidated''
                  ''parse_error'' (exn_str e))"
  using assms by (simp add: handle_response_def parse_and_validate_def and_then_def)

lemma result_urls_comprehension:
  "result_urls rs = [the (url r). r \<leftarrow> rs, url r \<noteq> None \<and> url r \<noteq> Some []]"
  by (induction rs) (auto simp: result_urls_def truthy_def split: option.splits)

lemma sample_extract: "extract_json sample_reply = Inr sample_json"
  by (simp add: extract_json_def sample_reply_def sample_json_def py_find_def py_rfind_def py_slice_def)

lemma sample_received:
  "receive_response (sample_env (Inr [sample_reply])) ''Plan a trip to Paris'' None None =
     Inr (sample_state, sample_memory ''Plan a trip to Paris'' sample_reply, sample_reply)"
  by (simp add: receive_response_def sample_env_def after_def and_then_def advance_def
      new_AgentState_def new_ShortTermMemory_def add_conversation_def store_long_term_def
      py_first_def sample_state_def sample_memory_def Let_def over_budget_def
      estimated_token_count_def sample_reply_def sample_json_def get_conversation_history_def)

lemma sample_received_plain:
  "receive_response (sample_env (Inr [''Sorry, I cannot help.''])) ''Plan a trip to Paris'' None None =
     Inr (sample_state, sample_memory ''Plan a trip to Paris'' ''Sorry, I cannot help.'',
          ''Sorry, I cannot help.'')"
  by (simp add: receive_response_def sample_env_def after_def and_then_def advance_def
      new_AgentState_def new_ShortTermMemory_def add_conversation_def store_long_term_def
      py_first_def sample_state_def sample_memory_def Let_def over_budget_def
      estimated_token_count_def get_conversation_history_def)

lemma sample_received_broken:
  "receive_response (sample_env (Inr [''{broken}''])) ''Plan a trip to Paris'' None None =
     Inr (sample_state, sample_memory ''Plan a trip to Paris'' ''{broken}'', ''{broken}'')"
  by (simp add: receive_response_def sample_env_def after_def and_then_def advance_def
      new_AgentState_def new_ShortTermMemory_def add_conversation_def store_long_term_def
      py_first_def sample_state_def sample_memory_def Let_def over_budget_def
      estimated_token_count_def get_conversation_history_def)

lemma sample_env_fields:
  "json_loads (sample_env c) = sample_loads" "TripPlan_init (sample_env c) = sample_init"
  "fresh_session_id (sample_env c) = ''session-1''"
  by (simp_all add: sample_env_def)

lemma sample_loads_sample:
  "json_loads (sample_env c) sample_json = Inr (JObject sample_members)"
  "TripPlan_init (sample_env c) sample_members = Inr sample_plan"
  by (simp_all add: sample_env_def sample_loads_def sample_init_def)

lemma plain_extract:
  "extract_json ''Sorry, I cannot help.'' = Inl (Exn ValueError ''No JSON found in response'')"
  by (simp add: extract_json_def py_find_def py_rfind_def)

lemma broken_extract: "extract_json ''{broken}'' = Inr ''{broken}''"
  by (simp add: extract_json_def py_find_def py_rfind_def py_slice_def)

lemma broken_loads:
  "json_loads (sample_env c) ''{broken}'' =
     Inl (Exn JSONDecodeError ''Expecting property name enclosed in double quotes: line 1 column 2 (char 1)'')"
  by (simp add: sample_env_def sample_loads_def sample_json_def)

lemma receive_response_config_error:
  "validate_all_config env = Some e \<Longrightarrow>
     receive_response env user_input memory ltm = Inl e"
  by (simp add: receive_response_def after_def)

lemma receive_response_completion_error:
  assumes "validate_all_config env = None" and "create_kernel env = None"
    and "get_service env = None"
    and "\<forall>add_memory record. ltm = Some add_memory \<longrightarrow> best_effort (add_memory record) = None"
    and "\<forall>history. get_chat_message_contents env history = Inl e"
  shows "receive_response env user_input memory ltm = Inl e"
  using assms
  by (auto simp: receive_response_def after_def and_then_def advance_def new_AgentState_def
      store_long_term_def Let_def split: option.splits)

lemma received_reply:
  assumes "receive_response env user_input memory ltm = Inr (state, memory', reply)"
  shows "\<exists>rest. get_chat_message_contents env
           (build_chat_history
              (get_conversation_history
                 (add_conversation ''user'' user_input (time_received env)
                    (case memory of
                       None \<Rightarrow> new_ShortTermMemory 10 4000 (fresh_memory_session_id env)
                     | Some m \<Rightarrow> m)))
              user_input) = Inr (reply # rest)"
  using assms
  by (auto simp: receive_response_def after_def and_then_def py_first_def Let_def
      split: option.splits sum.splits list.splits)

lemma receive_response_returns:
  assumes "validate_all_config env = None" and "create_kernel env = None"
    and "get_service env = None"
    and "\<forall>history. get_chat_message_contents env history = Inr (reply # rest)"
  shows "\<exists>state memory'. receive_response env user_input memory None = Inr (state, memory', reply)"
  using assms
  by (simp add: receive_response_def after_def and_then_def advance_def new_AgentState_def
      store_long_term_def py_first_def Let_def)

lemma extract_json_braces:
  "extract_json (CHR ''{'' # body @ [CHR ''}'']) = Inr (CHR ''{'' # body @ [CHR ''}''])"
  by (simp add: extract_json_def py_find_def py_rfind_def py_slice_def Let_def)

lemma deep_extract: "extract_json deep_json = Inr deep_json"
proof -
  have "deep_json =
          CHR ''{'' # (tl (butlast deep_json)) @ [CHR ''}'']"
    by (simp add: deep_json_def butlast_append)
  then show ?thesis
    using extract_json_braces [of "tl (butlast deep_json)"] by simp
qed

lemma handle_response_propagates:
  assumes "extract_json reply = Inr js" and "json_loads env js = Inl e"
    and "\<not> is_Exception (exn_cls e)"
  shows "handle_response env state memory reply = Inl e"
  using assms
  by (cases "exn_cls e") (auto simp: handle_response_def parse_and_validate_def and_then_def)

text \<open>
  C1, as the spec states it: the label of a reply that parses and validates is
  \<^verbatim>\<open>validated_with_schema\<close>. Line 297 writes \<^verbatim>\<open>validated_with_pydantic\<close>: for the sample
  reply, which parses and validates, the envelope carries that label.
\<close>

theorem validated_label_is_pydantic:
  "run_request (sample_env (Inr [sample_reply])) ''Plan a trip to Paris'' None None =
     Inr (TripPlanResult (auto_populate_citations sample_plan) ''session-1''
            [''automatic_via_llm''] ''validated_with_pydantic'' 2)
   \<and> data_quality (TripPlanResult (auto_populate_citations sample_plan) ''session-1''
            [''automatic_via_llm''] ''validated_with_pydantic'' 2)
       \<notin> {Some ''validated_with_schema'', Some ''unvalidated'', Some ''validation_failed''}"
proof -
  have "handle_response (sample_env (Inr [sample_reply])) sample_state
          (sample_memory ''Plan a trip to Paris'' sample_reply) sample_reply =
        Inr (TripPlanResult (auto_populate_citations sample_plan) (session_id sample_state)
               [''automatic_via_llm''] ''validated_with_pydantic''
               (length (get_conversation_history (sample_memory ''Plan a trip to Paris'' sample_reply))))"
    by (rule handle_response_valid [where js = sample_json and members = sample_members])
       (simp_all add: sample_extract sample_env_fields sample_loads_def sample_init_def
          sample_state_def)
  then show ?thesis
    by (simp add: run_request_after_response [OF sample_received] sample_state_def
        sample_memory_def get_conversation_history_def)
qed

text \<open>
  C1, amended: for every assistant reply \<^verbatim>\<open>run_request\<close> processes, \<^verbatim>\<open>data_quality\<close> of the
  returned envelope is one of \<^verbatim>\<open>validated_with_pydantic\<close>, \<^verbatim>\<open>unvalidated\<close>,
  \<^verbatim>\<open>validation_failed\<close>. It is \<^verbatim>\<open>validated_with_pydantic\<close> exactly when the extracted JSON
  parses to an object and the \<^verbatim>\<open>TripPlan\<close> constructor accepts it; \<^verbatim>\<open>unvalidated\<close> when no
  JSON text is found or \<^verbatim>\<open>json.loads\<close> raises \<^verbatim>\<open>JSONDecodeError\<close>; \<^verbatim>\<open>validation_failed\<close> when
  parsing or validation raises an exception that is not a \<^verbatim>\<open>ValueError\<close>.
\<close>

theorem data_quality_of_processed_response:
  assumes "receive_response env user_input memory ltm = Inr (state, memory', reply)"
  shows "(\<forall>r. run_request env user_input memory ltm = Inr r \<longrightarrow>
            data_quality r \<in> {Some ''validated_with_pydantic'', Some ''unvalidated'',
                              Some ''validation_failed''})
    \<and> (\<forall>js members plan.
          extract_json reply = Inr js \<and> json_loads env js = Inr (JObject members)
            \<and> TripPlan_init env members = Inr plan \<longrightarrow>
          (\<exists>r. run_request env user_input memory ltm = Inr r
                \<and> data_quality r = Some ''validated_with_pydantic''))
    \<and> (\<forall>r. run_request env user_input memory ltm = Inr r
            \<and> data_quality r = Some ''validated_with_pydantic'' \<longrightarrow>
          (\<exists>js members plan. extract_json reply = Inr js
              \<and> json_loads env js = Inr (JObject members) \<and> TripPlan_init env members = Inr plan))
    \<and> (\<forall>js e.
          extract_json reply = Inl e
            \<or> (extract_json reply = Inr js \<and> json_loads env js = Inl e
                 \<and> exn_cls e = JSONDecodeError) \<longrightarrow>
          (\<exists>r. run_request env user_input memory ltm = Inr r
                \<and> data_quality r = Some ''unvalidated''))
    \<and> (\<forall>js e.
          extract_json reply = Inr js
            \<and> (json_loads env js = Inl e
                \<or> (\<exists>members. json_loads env js = Inr (JObject members)
                       \<and> TripPlan_init env members = Inl e))
            \<and> is_Exception (exn_cls e) \<and> \<not> is_ValueError (exn_cls e) \<longrightarrow>
          (\<exists>r. run_request env user_input memory ltm = Inr r
                \<and> data_quality r = Some ''validation_failed''))"
proof -
  note run = run_request_after_response [OF assms]
  have completed: "phase state = Completed"
    using received_state [OF assms] by simp
  have one: "\<forall>r. run_request env user_input memory ltm = Inr r \<longrightarrow>
            data_quality r \<in> {Some ''validated_with_pydantic'', Some ''unvalidated'',
                              Some ''validation_failed''}"
    using handle_response_quality [of env state memory' reply] by (auto simp: run)
  have two: "\<forall>js members plan.
          extract_json reply = Inr js \<and> json_loads env js = Inr (JObject members)
            \<and> TripPlan_init env members = Inr plan \<longrightarrow>
          (\<exists>r. run_request env user_input memory ltm = Inr r
                \<and> data_quality r = Some ''validated_with_pydantic'')"
    using completed by (auto simp: run handle_response_valid)
  have three: "\<forall>r. run_request env user_input memory ltm = Inr r
            \<and> data_quality r = Some ''validated_with_pydantic'' \<longrightarrow>
          (\<exists>js members plan. extract_json reply = Inr js
              \<and> json_loads env js = Inr (JObject members) \<and> TripPlan_init env members = Inr plan)"
    using handle_response_validated_only_if [of env state memory' reply] by (simp add: run)
  have four: "\<forall>js e.
          extract_json reply = Inl e
            \<or> (extract_json reply = Inr js \<and> json_loads env js = Inl e
                 \<and> exn_cls e = JSONDecodeError) \<longrightarrow>
          (\<exists>r. run_request env user_input memory ltm = Inr r
                \<and> data_quality r = Some ''unvalidated'')"
    by (auto simp: run handle_response_no_json handle_response_decode_error)
  have five: "\<forall>js e.
          extract_json reply = Inr js
            \<and> (json_loads env js = Inl e
                \<or> (\<exists>members. json_loads env js = Inr (JObject members)
                       \<and> TripPlan_init env members = Inl e))
            \<and> is_Exception (exn_cls e) \<and> \<not> is_ValueError (exn_cls e) \<longrightarrow>
          (\<exists>r. run_request env user_input memory ltm = Inr r
                \<and> data_quality r = Some ''validation_failed'')"
  proof (intro allI impI)
    fix js e
    assume a: "extract_json reply = Inr js
            \<and> (json_loads env js = Inl e
                \<or> (\<exists>members. json_loads env js = Inr (JObject members)
                       \<and> TripPlan_init env members = Inl e))
            \<and> is_Exception (exn_cls e) \<and> \<not> is_ValueError (exn_cls e)"
    then have "handle_response env state memory' reply =
           Inr (RawResponse reply (session_id state) [''automatic_via_llm''] ''validation_failed''
                  ''validation_error'' (exn_str e))"
      by (intro handle_response_other_error [where js = js]) auto
    then show "\<exists>r. run_request env user_input memory ltm = Inr r
                \<and> data_quality r = Some ''validation_failed''"
      by (simp add: run)
  qed
  from one two three four five show ?thesis by blast
qed

theorem data_quality_witness:
  "(\<exists>r. run_request (sample_env (Inr [sample_reply])) ''Plan a trip to Paris'' None None = Inr r
        \<and> data_quality r = Some ''validated_with_pydantic'')
   \<and> (\<exists>r. run_request (sample_env (Inr [''Sorry, I cannot help.''])) ''Plan a trip to Paris''
             None None = Inr r
        \<and> data_quality r = Some ''unvalidated'')"
proof -
  have "extract_json sample_reply = Inr sample_json
      \<and> json_loads (sample_env (Inr [sample_reply])) sample_json = Inr (JObject sample_members)
      \<and> TripPlan_init (sample_env (Inr [sample_reply])) sample_members = Inr sample_plan"
    by (simp add: sample_extract sample_loads_sample)
  with data_quality_of_processed_response [OF sample_received]
  have 1: "\<exists>r. run_request (sample_env (Inr [sample_reply])) ''Plan a trip to Paris'' None None = Inr r
        \<and> data_quality r = Some ''validated_with_pydantic''"
    by blast
  from data_quality_of_processed_response [OF sample_received_plain] plain_extract
  have 2: "\<exists>r. run_request (sample_env (Inr [''Sorry, I cannot help.''])) ''Plan a trip to Paris''
             None None = Inr r
        \<and> data_quality r = Some ''unvalidated''"
    by blast
  from 1 2 show ?thesis by simp
qed

text \<open>
  C3: when the extracted JSON of a reply parses and validates as a trip plan, the
  envelope is the validated one; if the plan's citations are empty or absent and its
  results are not empty, the returned plan's citations are the non-empty URLs of the
  results in the results' order, and nothing else of the plan changes; otherwise the
  plan is returned as it is.
\<close>

theorem citations_from_result_urls:
  assumes "receive_response env user_input memory ltm = Inr (state, memory', reply)"
    and "extract_json reply = Inr js"
    and "json_loads env js = Inr (JObject members)"
    and "TripPlan_init env members = Inr plan"
  shows "\<exists>p. run_request env user_input memory ltm =
               Inr (TripPlanResult p (fresh_session_id env) [''automatic_via_llm'']
                      ''validated_with_pydantic'' (length (get_conversation_history memory')))
           \<and> ((citations plan = None \<or> citations plan = Some []) \<and> results plan = Some rs
                 \<and> rs \<noteq> [] \<longrightarrow>
               citations p = Some [the (url r). r \<leftarrow> rs, url r \<noteq> None \<and> url r \<noteq> Some []]
                 \<and> p = plan\<lparr>citations := citations p\<rparr>)
           \<and> (\<not> ((citations plan = None \<or> citations plan = Some [])
                    \<and> results plan \<noteq> None \<and> results plan \<noteq> Some []) \<longrightarrow> p = plan)"
proof -
  have st: "phase state = Completed" "session_id state = fresh_session_id env"
    using received_state [OF assms(1)] by simp_all
  have "run_request env user_input memory ltm =
          Inr (TripPlanResult (auto_populate_citations plan) (fresh_session_id env)
                 [''automatic_via_llm''] ''validated_with_pydantic''
                 (length (get_conversation_history memory')))"
    using handle_response_valid [OF assms(2) assms(3) assms(4) st(1), of memory'] st(2)
    by (simp add: run_request_after_response [OF assms(1)])
  moreover have "(citations plan = None \<or> citations plan = Some []) \<and> results plan = Some rs
                 \<and> rs \<noteq> [] \<longrightarrow>
               citations (auto_populate_citations plan)
                 = Some [the (url r). r \<leftarrow> rs, url r \<noteq> None \<and> url r \<noteq> Some []]
               \<and> auto_populate_citations plan
                   = plan\<lparr>citations := citations (auto_populate_citations plan)\<rparr>"
    by (cases "citations plan")
       (auto simp: auto_populate_citations_def truthy_def result_urls_comprehension)
  moreover have "\<not> ((citations plan = None \<or> citations plan = Some [])
                    \<and> results plan \<noteq> None \<and> results plan \<noteq> Some [])
                 \<longrightarrow> auto_populate_citations plan = plan"
    by (cases "citations plan"; cases "results plan")
       (auto simp: auto_populate_citations_def truthy_def)
  ultimately show ?thesis by blast
qed

theorem citations_witness:
  "\<exists>p. run_request (sample_env (Inr [sample_reply])) ''Plan a trip to Paris'' None None =
          Inr (TripPlanResult p ''session-1'' [''automatic_via_llm''] ''validated_with_pydantic'' 2)
      \<and> citations sample_plan = Some []
      \<and> citations p = Some [''https://a.example'', ''https://c.example'']"
proof -
  have r: "results sample_plan = Some [sample_entry ''A'' ''https://a.example'',
             sample_entry ''B'' [], sample_entry ''C'' ''https://c.example'']"
    and c: "citations sample_plan = Some []"
    by (simp_all add: sample_plan_def)
  from citations_from_result_urls [OF sample_received sample_extract sample_loads_sample,
      of "[sample_entry ''A'' ''https://a.example'', sample_entry ''B'' [],
           sample_entry ''C'' ''https://c.example'']"] r c
  show ?thesis
    by (auto simp: sample_env_fields sample_memory_def get_conversation_history_def
        sample_entry_def)
qed

text \<open>
  C4, as the spec states it: whenever the located text fails to parse as JSON, the
  envelope is the one tagged \<^verbatim>\<open>unvalidated\<close>. The first handler of the inner \<^verbatim>\<open>try\<close> is
  \<^verbatim>\<open>except (json_module.JSONDecodeError, ValueError)\<close>. On a text nested too deep
  \<^verbatim>\<open>json.loads\<close> raises \<^verbatim>\<open>RecursionError\<close>, which is no \<^verbatim>\<open>ValueError\<close>: the second handler
  takes it, and the envelope is tagged \<^verbatim>\<open>validation_failed\<close>, the message under
  \<^verbatim>\<open>validation_error\<close>.
\<close>

theorem deep_nesting_tagged_validation_failed:
  "CHR ''{'' \<in> set deep_json \<and> CHR ''}'' \<in> set deep_json
   \<and> extract_json deep_json = Inr deep_json
   \<and> json_loads deep_env deep_json =
       Inl (Exn RecursionError
              ''maximum recursion depth exceeded while decoding a JSON array from a unicode string'')
   \<and> run_request deep_env ''Plan a trip to Paris'' None None =
       Inr (RawResponse deep_json ''session-1'' [''automatic_via_llm''] ''validation_failed''
              ''validation_error''
              ''maximum recursion depth exceeded while decoding a JSON array from a unicode string'')"
proof -
  let ?e = "Exn RecursionError
              ''maximum recursion depth exceeded while decoding a JSON array from a unicode string''"
  have braces: "CHR ''{'' \<in> set deep_json \<and> CHR ''}'' \<in> set deep_json"
    by (simp add: deep_json_def)
  have loads: "json_loads deep_env deep_json = Inl ?e"
    by (simp add: deep_env_def deep_loads_def)
  have "\<exists>state memory'. receive_response deep_env ''Plan a trip to Paris'' None None
          = Inr (state, memory', deep_json)"
    by (rule receive_response_returns [where rest = "[]"])
       (simp_all add: deep_env_def sample_env_def)
  then obtain state memory' where
    r: "receive_response deep_env ''Plan a trip to Paris'' None None = Inr (state, memory', deep_json)"
    by blast
  have sid: "session_id state = ''session-1''"
    using received_state [OF r] by (simp add: deep_env_def sample_env_def)
  have "handle_response deep_env state memory' deep_json =
          Inr (RawResponse deep_json (session_id state) [''automatic_via_llm'']
                 ''validation_failed'' ''validation_error'' (exn_str ?e))"
    by (rule handle_response_other_error [where js = deep_json])
       (simp_all add: deep_extract loads)
  then have "run_request deep_env ''Plan a trip to Paris'' None None =
       Inr (RawResponse deep_json ''session-1'' [''automatic_via_llm''] ''validation_failed''
              ''validation_error''
              ''maximum recursion depth exceeded while decoding a JSON array from a unicode string'')"
    by (simp add: run_request_after_response [OF r] sid)
  with braces loads deep_extract show ?thesis by simp
qed

text \<open>
  C4, amended: the reply \<^verbatim>\<open>run_request\<close> works on is the first message of the completion's
  answer. For every reply with no \<^verbatim>\<open>{\<close> or no \<^verbatim>\<open>}\<close>, \<^verbatim>\<open>run_request\<close> returns the envelope
  tagged \<^verbatim>\<open>unvalidated\<close> whose \<^verbatim>\<open>raw_response\<close> is the reply itself, with the parse error
  \<^verbatim>\<open>No JSON found in response\<close>; the same envelope, with the decoder's message, is returned
  when \<^verbatim>\<open>json.loads\<close> raises \<^verbatim>\<open>JSONDecodeError\<close> or another \<^verbatim>\<open>ValueError\<close> on the located
  text. When \<^verbatim>\<open>json.loads\<close> raises an \<^verbatim>\<open>Exception\<close> that is no \<^verbatim>\<open>ValueError\<close>, the envelope
  holds the reply too but is tagged \<^verbatim>\<open>validation_failed\<close>, the message under
  \<^verbatim>\<open>validation_error\<close>; an exception that is no \<^verbatim>\<open>Exception\<close> leaves \<^verbatim>\<open>run_request\<close>.
\<close>

theorem unvalidated_fallback_keeps_raw_text:
  assumes "receive_response env user_input memory ltm = Inr (state, memory', reply)"
  shows "(\<exists>rest. get_chat_message_contents env
             (build_chat_history
                (get_conversation_history
                   (add_conversation ''user'' user_input (time_received env)
                      (case memory of
                         None \<Rightarrow> new_ShortTermMemory 10 4000 (fresh_memory_session_id env)
                       | Some m \<Rightarrow> m)))
                user_input) = Inr (reply # rest))
    \<and> (CHR ''{'' \<notin> set reply \<or> CHR ''}'' \<notin> set reply \<longrightarrow>
            run_request env user_input memory ltm =
              Inr (RawResponse reply (fresh_session_id env) [''automatic_via_llm'']
                     ''unvalidated'' ''parse_error'' ''No JSON found in response''))
    \<and> (\<forall>js e. extract_json reply = Inr js \<and> json_loads env js = Inl e
                 \<and> (exn_cls e = JSONDecodeError \<or> is_ValueError (exn_cls e)) \<longrightarrow>
            run_request env user_input memory ltm =
              Inr (RawResponse reply (fresh_session_id env) [''automatic_via_llm'']
                     ''unvalidated'' ''parse_error'' (exn_str e)))
    \<and> (\<forall>js e. extract_json reply = Inr js \<and> json_loads env js = Inl e
                 \<and> is_Exception (exn_cls e) \<and> \<not> is_ValueError (exn_cls e) \<longrightarrow>
            run_request env user_input memory ltm =
              Inr (RawResponse reply (fresh_session_id env) [''automatic_via_llm'']
                     ''validation_failed'' ''validation_error'' (exn_str e)))
    \<and> (\<forall>js e. extract_json reply = Inr js \<and> json_loads env js = Inl e
                 \<and> \<not> is_Exception (exn_cls e) \<longrightarrow>
            run_request env user_input memory ltm = Inl e)"
proof -
  note run = run_request_after_response [OF assms]
  have sid: "session_id state = fresh_session_id env"
    using received_state [OF assms] by simp
  have none: "CHR ''{'' \<notin> set reply \<or> CHR ''}'' \<notin> set reply \<Longrightarrow>
          extract_json reply = Inl (Exn ValueError ''No JSON found in response'')"
    by (simp add: extract_json_Inl)
  have 1: "CHR ''{'' \<notin> set reply \<or> CHR ''}'' \<notin> set reply \<longrightarrow>
            run_request env user_input memory ltm =
              Inr (RawResponse reply (fresh_session_id env) [''automatic_via_llm'']
                     ''unvalidated'' ''parse_error'' ''No JSON found in response'')"
    using none sid by (auto simp: run handle_response_no_json)
  have 2: "\<forall>js e. extract_json reply = Inr js \<and> json_loads env js = Inl e
                 \<and> (exn_cls e = JSONDecodeError \<or> is_ValueError (exn_cls e)) \<longrightarrow>
            run_request env user_input memory ltm =
              Inr (RawResponse reply (fresh_session_id env) [''automatic_via_llm'']
                     ''unvalidated'' ''parse_error'' (exn_str e))"
    using sid by (auto simp: run handle_response_decode_error)
  have 3: "\<forall>js e. extract_json reply = Inr js \<and> json_loads env js = Inl e
                 \<and> is_Exception (exn_cls e) \<and> \<not> is_ValueError (exn_cls e) \<longrightarrow>
            run_request env user_input memory ltm =
              Inr (RawResponse reply (fresh_session_id env) [''automatic_via_llm'']
                     ''validation_failed'' ''validation_error'' (exn_str e))"
  proof (intro allI impI)
    fix js e
    assume a: "extract_json reply = Inr js \<and> json_loads env js = Inl e
                 \<and> is_Exception (exn_cls e) \<and> \<not> is_ValueError (exn_cls e)"
    then have "handle_response env state memory' reply =
           Inr (RawResponse reply (session_id state) [''automatic_via_llm''] ''validation_failed''
                  ''validation_error'' (exn_str e))"
      by (intro handle_response_other_error [where js = js]) auto
    then show "run_request env user_input memory ltm =
              Inr (RawResponse reply (fresh_session_id env) [''automatic_via_llm'']
                     ''validation_failed'' ''validation_error'' (exn_str e))"
      by (simp add: run sid)
  qed
  have 4: "\<forall>js e. extract_json reply = Inr js \<and> json_loads env js = Inl e
                 \<and> \<not> is_Exception (exn_cls e) \<longrightarrow>
            run_request env user_input memory ltm = Inl e"
    by (auto simp: run handle_response_propagates)
  from received_reply [OF assms] 1 2 3 4 show ?thesis by blast
qed

theorem unvalidated_fallback_witness:
  "CHR ''{'' \<notin> set ''Sorry, I cannot help.''
   \<and> run_request (sample_env (Inr [''Sorry, I cannot help.''])) ''Plan a trip to Paris'' None None =
       Inr (RawResponse ''Sorry, I cannot help.'' ''session-1'' [''automatic_via_llm'']
              ''unvalidated'' ''parse_error'' ''No JSON found in response'')
   \<and> run_request (sample_env (Inr [''{broken}''])) ''Plan a trip to Paris'' None None =
       Inr (RawResponse ''{broken}'' ''session-1'' [''automatic_via_llm'']
              ''unvalidated'' ''parse_error'' ''Expecting property name enclosed in double quotes: line 1 column 2 (char 1)'')"
proof -
  have 1: "CHR ''{'' \<notin> set ''Sorry, I cannot help.''" by simp
  with unvalidated_fallback_keeps_raw_text [OF sample_received_plain]
  have 2: "run_request (sample_env (Inr [''Sorry, I cannot help.''])) ''Plan a trip to Paris'' None None =
       Inr (RawResponse ''Sorry, I cannot help.'' ''session-1'' [''automatic_via_llm'']
              ''unvalidated'' ''parse_error'' ''No JSON found in response'')"
    by (simp add: sample_env_fields)
  have "extract_json ''{broken}'' = Inr ''{broken}''
      \<and> json_loads (sample_env (Inr [''{broken}''])) ''{broken}'' =
          Inl (Exn JSONDecodeError ''Expecting property name enclosed in double quotes: line 1 column 2 (char 1)'')
      \<and> exn_cls (Exn JSONDecodeError ''Expecting property name enclosed in double quotes: line 1 column 2 (char 1)'') = JSONDecodeError"
    by (simp add: broken_extract broken_loads)
  with unvalidated_fallback_keeps_raw_text [OF sample_received_broken]
  have 3: "run_request (sample_env (Inr [''{broken}''])) ''Plan a trip to Paris'' None None =
       Inr (RawResponse ''{broken}'' ''session-1'' [''automatic_via_llm'']
              ''unvalidated'' ''parse_error'' ''Expecting property name enclosed in double quotes: line 1 column 2 (char 1)'')"
    by (auto simp: sample_env_fields)
  from 1 2 3 show ?thesis by simp
qed

section \<open>Properties of run_request as a whole\<close>

text \<open>
  C9, as the spec states it: no exception escapes \<^verbatim>\<open>run_request\<close>. The handler is
  \<^verbatim>\<open>except Exception\<close>: a \<^verbatim>\<open>KeyboardInterrupt\<close> raised during the completion call is not
  an \<^verbatim>\<open>Exception\<close> and leaves the function (the loop of \<^verbatim>\<open>main()\<close> catches it around the
  call).
\<close>

theorem keyboard_interrupt_escapes:
  "run_request (sample_env (Inl (Exn KeyboardInterrupt []))) ''Plan a trip to Paris'' None None =
     Inl (Exn KeyboardInterrupt [])"
  by (simp add: run_request_def run_request_body_def receive_response_def sample_env_def
      after_def and_then_def advance_def new_AgentState_def store_long_term_def Let_def)

text \<open>
  C9, amended: \<^verbatim>\<open>run_request\<close> returns what its body returns. Every failure of the
  pipeline that raises an \<^verbatim>\<open>Exception\<close>, a configuration error and a completion-service
  error among them, yields the envelope \<^verbatim>\<open>{error: str(e), status: failed}\<close>. An exception
  that is no \<^verbatim>\<open>Exception\<close> (\<^verbatim>\<open>KeyboardInterrupt\<close>, \<^verbatim>\<open>SystemExit\<close>, \<^verbatim>\<open>asyncio.CancelledError\<close>)
  leaves \<^verbatim>\<open>run_request\<close> as it was raised, and only such an exception does.
\<close>

theorem failures_yield_failed_envelope:
  "(run_request env user_input memory ltm = Inl e \<longrightarrow>
        \<not> is_Exception (exn_cls e) \<and> run_request_body env user_input memory ltm = Inl e)
   \<and> (run_request_body env user_input memory ltm = Inl e \<and> is_Exception (exn_cls e) \<longrightarrow>
        run_request env user_input memory ltm = Inr (RequestFailed (exn_str e) ''failed''))
   \<and> (run_request_body env user_input memory ltm = Inl e \<and> \<not> is_Exception (exn_cls e) \<longrightarrow>
        run_request env user_input memory ltm = Inl e)
   \<and> (run_request_body env user_input memory ltm = Inr r \<longrightarrow>
        run_request env user_input memory ltm = Inr r)
   \<and> (validate_all_config env = Some e \<longrightarrow>
        run_request env user_input memory ltm =
          (if is_Exception (exn_cls e) then Inr (RequestFailed (exn_str e) ''failed'') else Inl e))
   \<and> (validate_all_config env = None \<and> create_kernel env = None \<and> get_service env = None
        \<and> (\<forall>add_memory record. ltm = Some add_memory \<longrightarrow> best_effort (add_memory record) = None)
        \<and> (\<forall>history. get_chat_message_contents env history = Inl e) \<longrightarrow>
        run_request env user_input memory ltm =
          (if is_Exception (exn_cls e) then Inr (RequestFailed (exn_str e) ''failed'') else Inl e))"
proof -
  have 1: "run_request env user_input memory ltm = Inl e \<longrightarrow>
        \<not> is_Exception (exn_cls e) \<and> run_request_body env user_input memory ltm = Inl e"
    by (auto simp: run_request_def split: sum.splits if_splits)
  have 2: "run_request_body env user_input memory ltm = Inl e \<and> is_Exception (exn_cls e) \<longrightarrow>
        run_request env user_input memory ltm = Inr (RequestFailed (exn_str e) ''failed'')"
    by (simp add: run_request_def)
  have 3: "run_request_body env user_input memory ltm = Inl e \<and> \<not> is_Exception (exn_cls e) \<longrightarrow>
        run_request env user_input memory ltm = Inl e"
    by (simp add: run_request_def)
  have 4: "run_request_body env user_input memory ltm = Inr r \<longrightarrow>
        run_request env user_input memory ltm = Inr r"
    by (simp add: run_request_def)
  have 5: "validate_all_config env = Some e \<longrightarrow>
        run_request env user_input memory ltm =
          (if is_Exception (exn_cls e) then Inr (RequestFailed (exn_str e) ''failed'') else Inl e)"
    by (simp add: run_request_def run_request_body_def and_then_def
        receive_response_config_error)
  have 6: "validate_all_config env = None \<and> create_kernel env = None \<and> get_service env = None
        \<and> (\<forall>add_memory record. ltm = Some add_memory \<longrightarrow> best_effort (add_memory record) = None)
        \<and> (\<forall>history. get_chat_message_contents env history = Inl e) \<longrightarrow>
        run_request env user_input memory ltm =
          (if is_Exception (exn_cls e) then Inr (RequestFailed (exn_str e) ''failed'') else Inl e)"
    using receive_response_completion_error [of env ltm e user_input memory]
    by (auto simp: run_request_def run_request_body_def and_then_def)
  from 1 2 3 4 5 6 show ?thesis by blast
qed

theorem failures_witness:
  "is_Exception (exn_cls (Exn Exception ''service unavailable''))
   \<and> run_request (sample_env (Inl (Exn Exception ''service unavailable'')))
        ''Plan a trip to Paris'' None None =
       Inr (RequestFailed ''service unavailable'' ''failed'')
   \<and> \<not> is_Exception (exn_cls (Exn SystemExit ''1''))
   \<and> run_request (sample_env (Inl (Exn SystemExit ''1''))) ''Plan a trip to Paris'' None None =
       Inl (Exn SystemExit ''1'')"
  using failures_yield_failed_envelope [of "sample_env (Inl (Exn Exception ''service unavailable''))"
      "''Plan a trip to Paris''" None None "Exn Exception ''service unavailable''"]
    failures_yield_failed_envelope [of "sample_env (Inl (Exn SystemExit ''1''))"
      "''Plan a trip to Paris''" None None "Exn SystemExit ''1''"]
  by (simp add: sample_env_def)

section \<open>Properties of retrieval\<close>

lemma retrieve_outcome:
  "fst (retrieve env g query k partition_key) =
     (case fst (retrieve_body env g query k partition_key) of
        Inr rows \<Rightarrow> Inr rows
      | Inl e \<Rightarrow>
          if is_Exception (exn_cls e)
          then (case py_print env (RetrievalFailed e) of None \<Rightarrow> Inr [] | Some e' \<Rightarrow> Inl e')
          else Inl e)"
  by (cases "retrieve_body env g query k partition_key")
     (auto simp: retrieve_def after_def split: sum.splits option.splits)

lemma retrieve_body_outcome:
  "fst (retrieve_body env g query k partition_key) =
     (case fst (get_cosmos_client env g) of
        Inl e \<Rightarrow> Inl e
      | Inr (Some client, Some query_items) \<Rightarrow> search env query_items query k partition_key
      | Inr _ \<Rightarrow> Inl (Exn Exception ''Cosmos DB not available''))"
  by (cases "get_cosmos_client env g")
     (auto simp: retrieve_body_def split: sum.splits option.splits prod.splits)

lemma retrieve_with_store:
  assumes "fst (get_cosmos_client env g) = Inr (Some client, Some query_items)"
  shows "fst (retrieve env g query k partition_key) =
     (case search env query_items query k partition_key of
        Inr rows \<Rightarrow> Inr rows
      | Inl e \<Rightarrow>
          if is_Exception (exn_cls e)
          then (case py_print env (RetrievalFailed e) of None \<Rightarrow> Inr [] | Some e' \<Rightarrow> Inl e')
          else Inl e)"
  by (simp add: retrieve_outcome retrieve_body_outcome assms)

lemma retrieve_without_store:
  assumes "fst (get_cosmos_client env g) = Inr (client, container)"
    and "client = None \<or> container = None"
    and "py_print env (RetrievalFailed (Exn Exception ''Cosmos DB not available'')) = None"
  shows "fst (retrieve env g query k partition_key) = Inr []"
  using assms by (auto simp: retrieve_outcome retrieve_body_outcome split: option.splits)

lemma get_cosmos_client_connection_error:
  assumes "client_global g = None" and "CosmosClient env = Some e"
  shows "fst (get_cosmos_client env g) =
           (if is_Exception (exn_cls e)
            then (case py_print env (ConnectionFailed e) of
                    None \<Rightarrow> Inr (None, None) | Some e' \<Rightarrow> Inl e')
            else Inl e)"
  using assms by (simp add: get_cosmos_client_def connect_def split: option.splits)

lemma get_cosmos_client_container_error:
  assumes "client_global g = None" and "CosmosClient env = None"
    and "py_print env UsingConnectionKey = None" and "get_container_client env = Inl e"
  shows "fst (get_cosmos_client env g) =
           (if is_Exception (exn_cls e)
            then (case py_print env (ConnectionFailed e) of
                    None \<Rightarrow> Inr (None, None) | Some e' \<Rightarrow> Inl e')
            else Inl e)"
  using assms by (simp add: get_cosmos_client_def connect_def Let_def split: option.splits)

lemma retrieve_connection_error:
  assumes "client_global g = None"
    and "CosmosClient env = Some e
         \<or> (CosmosClient env = None \<and> get_container_client env = Inl e)"
    and "\<forall>c. py_print env c = None"
  shows "fst (retrieve env g query k partition_key) =
           (if is_Exception (exn_cls e) then Inr [] else Inl e)"
  using assms
  by (auto simp: retrieve_outcome retrieve_body_outcome get_cosmos_client_connection_error
      get_cosmos_client_container_error)

lemma embed_texts_single:
  "embed_texts env [query] =
     (case embed_texts_body env [query] of
        Inr embeddings \<Rightarrow> Inr embeddings
      | Inl e \<Rightarrow>
          if is_Exception (exn_cls e)
          then (case py_print env (EmbeddingFailed e) of
                  None \<Rightarrow> Inl (Exn Exception (''Failed to generate embeddings: '' @ exn_str e))
                | Some e' \<Rightarrow> Inl e')
          else Inl e)"
  by (simp add: embed_texts_def after_def split: sum.splits option.splits)

lemma embed_texts_body_single:
  "embed_texts_body env [query] =
     (case AzureTextEmbedding env of
        Some e \<Rightarrow>
          if is_Exception (exn_cls e)
          then (case py_print env (KernelFailed e) of
                  None \<Rightarrow> Inl (Exn Exception ''Failed to create embedding kernel'')
                | Some e' \<Rightarrow> Inl e')
          else Inl e
      | None \<Rightarrow>
          (case kernel_get_service env of
             Inl e \<Rightarrow> Inl e
           | Inr service \<Rightarrow>
               (case service query of
                  Inl e \<Rightarrow> Inl e
                | Inr [] \<Rightarrow> Inl (Exn IndexError ''list index out of range'')
                | Inr (v # _) \<Rightarrow> Inr [v])))"
  by (auto simp: embed_texts_body_def create_embedding_kernel_def and_then_def after_def
      py_first_def split: option.splits sum.splits list.splits)

lemma embed_texts_kernel_error:
  assumes "AzureTextEmbedding env = Some e" and "\<forall>c. py_print env c = None"
  shows "embed_texts env [query] =
           (if is_Exception (exn_cls e)
            then Inl (Exn Exception
                   ''Failed to generate embeddings: Failed to create embedding kernel'')
            else Inl e)"
  using assms by (simp add: embed_texts_single embed_texts_body_single)

lemma embed_texts_service_error:
  assumes "AzureTextEmbedding env = None"
    and "kernel_get_service env = Inl e
         \<or> (\<exists>service. kernel_get_service env = Inr service \<and> service query = Inl e)"
    and "\<forall>c. py_print env c = None"
  shows "embed_texts env [query] =
           (if is_Exception (exn_cls e)
            then Inl (Exn Exception (''Failed to generate embeddings: '' @ exn_str e))
            else Inl e)"
  using assms by (auto simp: embed_texts_single embed_texts_body_single)

lemma search_embedding_error:
  "embed_texts env [query] = Inl e \<Longrightarrow> search env query_items query k partition_key = Inl e"
  by (simp add: search_def and_then_def)

lemma search_bad_vector:
  assumes "embed_texts env [query] = Inr vs"
    and "vs = [] \<or> hd vs = PyList [] \<or> hd vs = PyScalar x"
  shows "\<exists>v. search env query_items query k partition_key =
           Inl (Exn ValueError (''Invalid embedding format: '' @ type_name v))"
  using assms by (cases vs) (auto simp: search_def and_then_def Let_def)

lemma search_query:
  assumes "embed_texts env [query] = Inr (PyList xs # others)" and "xs \<noteq> []"
  shows "search env query_items query k partition_key =
           (case query_items \<lparr>top_k = k, queryVector = xs,
                   pk = (if truthy partition_key then partition_key else None)\<rparr> of
              Inl e \<Rightarrow> Inl e
            | Inr rows \<Rightarrow>
                (case py_print env (RetrievedResults (length rows)) of
                   Some e \<Rightarrow> Inl e
                 | None \<Rightarrow>
                     (case print_results env rows of
                        Some e \<Rightarrow> Inl e
                      | None \<Rightarrow> Inr rows)))"
  using assms
  by (simp add: search_def and_then_def after_def Let_def split: sum.splits option.splits)








lemma sample_store:
  "fst (get_cosmos_client (sample_rag_env service query_items) module_loaded) =
     Inr (Some (), Some query_items)"
  by (simp add: get_cosmos_client_def connect_def sample_rag_env_def module_loaded_def Let_def)

lemma sample_prints: "\<forall>c. py_print (sample_rag_env service query_items) c = None"
  by (simp add: sample_rag_env_def)


text \<open>
  C5, as the spec states it: no exception propagates out of \<^verbatim>\<open>retrieve\<close>. Both handlers
  on the way, the one of \<^verbatim>\<open>embed_texts\<close> and the one of \<^verbatim>\<open>retrieve\<close>, are
  \<^verbatim>\<open>except Exception\<close>: when the awaited embedding call is cancelled, the
  \<^verbatim>\<open>CancelledError\<close> passes both. And the handler of \<^verbatim>\<open>retrieve\<close> prints before it
  returns: on a standard output that encodes ASCII only, the first \<^verbatim>\<open>print\<close> of
  \<^verbatim>\<open>get_cosmos_client\<close> raises, the \<^verbatim>\<open>print\<close> of its handler raises, and so does the
  \<^verbatim>\<open>print\<close> of the handler of \<^verbatim>\<open>retrieve\<close>, whose \<^verbatim>\<open>UnicodeEncodeError\<close> leaves \<^verbatim>\<open>retrieve\<close>.
\<close>

theorem exceptions_leave_retrieve:
  "fst (retrieve (sample_rag_env (\<lambda>t. Inl (Exn CancelledError [])) top_k_store) module_loaded
          ''lounge access'' 5 None) = Inl (Exn CancelledError [])
   \<and> fst (retrieve ((sample_rag_env unit_embedding top_k_store)\<lparr>py_print := ascii_stdout\<rparr>)
            module_loaded ''lounge access'' 5 None) = Inl (cannot_encode ''u274c'')"
proof -
  have "embed_texts (sample_rag_env (\<lambda>t. Inl (Exn CancelledError [])) top_k_store)
          [''lounge access''] = Inl (Exn CancelledError [])"
    by (simp add: embed_texts_single embed_texts_body_single sample_rag_env_def)
  then have 1: "fst (retrieve (sample_rag_env (\<lambda>t. Inl (Exn CancelledError [])) top_k_store)
          module_loaded ''lounge access'' 5 None) = Inl (Exn CancelledError [])"
    by (simp add: retrieve_with_store [OF sample_store] search_embedding_error)
  have "fst (get_cosmos_client ((sample_rag_env unit_embedding top_k_store)\<lparr>py_print := ascii_stdout\<rparr>)
          module_loaded) = Inl (cannot_encode ''u274c'')"
    by (simp add: get_cosmos_client_def connect_def sample_rag_env_def module_loaded_def
        ascii_stdout_def cannot_encode_def Let_def)
  then have 2: "fst (retrieve ((sample_rag_env unit_embedding top_k_store)\<lparr>py_print := ascii_stdout\<rparr>)
            module_loaded ''lounge access'' 5 None) = Inl (cannot_encode ''u274c'')"
    by (simp add: retrieve_outcome retrieve_body_outcome)
       (simp add: sample_rag_env_def ascii_stdout_def cannot_encode_def)
  from 1 2 show ?thesis by simp
qed

text \<open>
  C5, amended: \<^verbatim>\<open>retrieve\<close> returns what its body returns. When a step fails with an
  \<^verbatim>\<open>Exception\<close>, \<^verbatim>\<open>retrieve\<close> prints the failure and returns the empty sequence; an
  exception raised by that \<^verbatim>\<open>print\<close> leaves \<^verbatim>\<open>retrieve\<close>. An exception that is no
  \<^verbatim>\<open>Exception\<close> (\<^verbatim>\<open>asyncio.CancelledError\<close>, \<^verbatim>\<open>KeyboardInterrupt\<close>, \<^verbatim>\<open>SystemExit\<close>) leaves
  \<^verbatim>\<open>retrieve\<close> as it was raised. In particular, when every \<^verbatim>\<open>print\<close> returns: a store that
  is not available gives the empty sequence; so does a failure to connect, to create
  the embedding kernel, to get the embedding service or to embed the query, and a
  failure of the store query, when the exception is an \<^verbatim>\<open>Exception\<close>, while any other
  exception propagates; an embedding that is missing, empty or not a list gives the
  empty sequence.
\<close>

theorem retrieve_empty_on_failure:
  "(fst (retrieve_body env g query k partition_key) = Inl e \<and> is_Exception (exn_cls e) \<longrightarrow>
        fst (retrieve env g query k partition_key) =
          (case py_print env (RetrievalFailed e) of None \<Rightarrow> Inr [] | Some e' \<Rightarrow> Inl e'))
   \<and> (fst (retrieve_body env g query k partition_key) = Inl e \<and> \<not> is_Exception (exn_cls e) \<longrightarrow>
        fst (retrieve env g query k partition_key) = Inl e)
   \<and> (fst (retrieve_body env g query k partition_key) = Inr rows \<longrightarrow>
        fst (retrieve env g query k partition_key) = Inr rows)
   \<and> ((\<forall>c. py_print env c = None) \<longrightarrow>
        (fst (get_cosmos_client env g) = Inr (client, container)
           \<and> (client = None \<or> container = None) \<longrightarrow>
         fst (retrieve env g query k partition_key) = Inr [])
      \<and> (client_global g = None
           \<and> (CosmosClient env = Some e
                \<or> (CosmosClient env = None \<and> get_container_client env = Inl e)) \<longrightarrow>
         fst (retrieve env g query k partition_key) =
           (if is_Exception (exn_cls e) then Inr [] else Inl e))
      \<and> (fst (get_cosmos_client env g) = Inr (Some u, Some query_items) \<longrightarrow>
           (AzureTextEmbedding env = Some e
              \<or> (AzureTextEmbedding env = None
                   \<and> (kernel_get_service env = Inl e
                        \<or> (\<exists>service. kernel_get_service env = Inr service
                               \<and> service query = Inl e)))
              \<or> embed_texts env [query] = Inl e
              \<or> (\<exists>xs others. embed_texts env [query] = Inr (PyList xs # others) \<and> xs \<noteq> []
                    \<and> query_items \<lparr>top_k = k, queryVector = xs,
                          pk = (if truthy partition_key then partition_key else None)\<rparr> = Inl e)
              \<longrightarrow>
            fst (retrieve env g query k partition_key) =
              (if is_Exception (exn_cls e) then Inr [] else Inl e))
         \<and> (embed_texts env [query] = Inr vs
              \<and> (vs = [] \<or> hd vs = PyList [] \<or> hd vs = PyScalar x) \<longrightarrow>
            fst (retrieve env g query k partition_key) = Inr [])))"
proof -
  let ?r = "fst (retrieve env g query k partition_key)"
  let ?b = "fst (retrieve_body env g query k partition_key)"
  have 1: "?b = Inl e \<and> is_Exception (exn_cls e) \<longrightarrow>
        ?r = (case py_print env (RetrievalFailed e) of None \<Rightarrow> Inr [] | Some e' \<Rightarrow> Inl e')"
    by (simp add: retrieve_outcome)
  have 2: "?b = Inl e \<and> \<not> is_Exception (exn_cls e) \<longrightarrow> ?r = Inl e"
    by (simp add: retrieve_outcome)
  have 3: "?b = Inr rows \<longrightarrow> ?r = Inr rows"
    by (simp add: retrieve_outcome)
  have 4: "(\<forall>c. py_print env c = None) \<longrightarrow>
        (fst (get_cosmos_client env g) = Inr (client, container)
           \<and> (client = None \<or> container = None) \<longrightarrow> ?r = Inr [])
      \<and> (client_global g = None
           \<and> (CosmosClient env = Some e
                \<or> (CosmosClient env = None \<and> get_container_client env = Inl e)) \<longrightarrow>
         ?r = (if is_Exception (exn_cls e) then Inr [] else Inl e))
      \<and> (fst (get_cosmos_client env g) = Inr (Some u, Some query_items) \<longrightarrow>
           (AzureTextEmbedding env = Some e
              \<or> (AzureTextEmbedding env = None
                   \<and> (kernel_get_service env = Inl e
                        \<or> (\<exists>service. kernel_get_service env = Inr service
                               \<and> service query = Inl e)))
              \<or> embed_texts env [query] = Inl e
              \<or> (\<exists>xs others. embed_texts env [query] = Inr (PyList xs # others) \<and> xs \<noteq> []
                    \<and> query_items \<lparr>top_k = k, queryVector = xs,
                          pk = (if truthy partition_key then partition_key else None)\<rparr> = Inl e)
              \<longrightarrow>
            ?r = (if is_Exception (exn_cls e) then Inr [] else Inl e))
         \<and> (embed_texts env [query] = Inr vs
              \<and> (vs = [] \<or> hd vs = PyList [] \<or> hd vs = PyScalar x) \<longrightarrow>
            ?r = Inr []))"
  proof (intro impI conjI)
    assume p: "\<forall>c. py_print env c = None"
    {
      assume "fst (get_cosmos_client env g) = Inr (client, container)
           \<and> (client = None \<or> container = None)"
      then show "?r = Inr []"
        using retrieve_without_store [of env g client container query k partition_key] p
        by simp
    next
      assume "client_global g = None
           \<and> (CosmosClient env = Some e
                \<or> (CosmosClient env = None \<and> get_container_client env = Inl e))"
      then show "?r = (if is_Exception (exn_cls e) then Inr [] else Inl e)"
        using retrieve_connection_error [of g env e query k partition_key] p by simp
    next
      assume s: "fst (get_cosmos_client env g) = Inr (Some u, Some query_items)"
      note r = retrieve_with_store [OF s, of query k partition_key]
      {
        assume "AzureTextEmbedding env = Some e
              \<or> (AzureTextEmbedding env = None
                   \<and> (kernel_get_service env = Inl e
                        \<or> (\<exists>service. kernel_get_service env = Inr service
                               \<and> service query = Inl e)))
              \<or> embed_texts env [query] = Inl e
              \<or> (\<exists>xs others. embed_texts env [query] = Inr (PyList xs # others) \<and> xs \<noteq> []
                    \<and> query_items \<lparr>top_k = k, queryVector = xs,
                          pk = (if truthy partition_key then partition_key else None)\<rparr> = Inl e)"
        then consider
            (kernel) "AzureTextEmbedding env = Some e"
          | (service) "AzureTextEmbedding env = None"
              "kernel_get_service env = Inl e
               \<or> (\<exists>service. kernel_get_service env = Inr service \<and> service query = Inl e)"
          | (embed) "embed_texts env [query] = Inl e"
          | (store) xs others where "embed_texts env [query] = Inr (PyList xs # others)" "xs \<noteq> []"
              "query_items \<lparr>top_k = k, queryVector = xs,
                  pk = (if truthy partition_key then partition_key else None)\<rparr> = Inl e"
          by auto
        then show "?r = (if is_Exception (exn_cls e) then Inr [] else Inl e)"
        proof cases
          case kernel
          from embed_texts_kernel_error [OF kernel p, of query] show ?thesis
            using p by (simp add: r search_embedding_error)
        next
          case service
          from embed_texts_service_error [OF service p] show ?thesis
            using p by (simp add: r search_embedding_error)
        next
          case embed
          then show ?thesis using p by (simp add: r search_embedding_error)
        next
          case store
          then show ?thesis using p by (simp add: r search_query)
        qed
      next
        assume "embed_texts env [query] = Inr vs
              \<and> (vs = [] \<or> hd vs = PyList [] \<or> hd vs = PyScalar x)"
        then obtain v where "search env query_items query k partition_key =
           Inl (Exn ValueError (''Invalid embedding format: '' @ type_name v))"
          using search_bad_vector [of env query vs x query_items k partition_key] by blast
        then show "?r = Inr []" using p by (simp add: r)
      }
    }
  qed
  from 1 2 3 4 show ?thesis by blast
qed

theorem retrieve_empty_on_failure_witness:
  "is_Exception (exn_cls (Exn Exception ''quota exceeded''))
   \<and> fst (retrieve (sample_rag_env (\<lambda>t. Inl (Exn Exception ''quota exceeded'')) top_k_store)
            module_loaded ''lounge access'' 5 None) = Inr []
   \<and> \<not> is_Exception (exn_cls (Exn KeyboardInterrupt []))
   \<and> fst (retrieve (sample_rag_env (\<lambda>t. Inl (Exn KeyboardInterrupt [])) top_k_store)
            module_loaded ''lounge access'' 5 None) = Inl (Exn KeyboardInterrupt [])"
  using retrieve_empty_on_failure [of
      "sample_rag_env (\<lambda>t. Inl (Exn Exception ''quota exceeded'')) top_k_store" module_loaded
      "''lounge access''" 5 None "Exn Exception ''quota exceeded''" _ _ _ "()" top_k_store]
    retrieve_empty_on_failure [of
      "sample_rag_env (\<lambda>t. Inl (Exn KeyboardInterrupt [])) top_k_store" module_loaded
      "''lounge access''" 5 None "Exn KeyboardInterrupt []" _ _ _ "()" top_k_store]
  by (simp add: sample_store sample_prints) (simp add: sample_rag_env_def)




section \<open>Properties of the weather tool\<close>

lemma set_first_seen: "set (first_seen xs) = set xs"
  by (induction xs) auto

lemma filter_first_seen: "first_seen (filter P xs) = filter P (first_seen xs)"
proof (induction xs)
  case Nil
  then show ?case by simp
next
  case (Cons a xs)
  show ?case
  proof (cases "P a")
    case True
    have "filter (\<lambda>y. y \<noteq> a) (filter P (first_seen xs)) = filter P (filter (\<lambda>y. y \<noteq> a) (first_seen xs))"
      by (simp add: conj_commute)
    with Cons True show ?thesis by simp
  next
    case False
    have "filter P (filter (\<lambda>y. y \<noteq> a) (first_seen xs)) = filter P (first_seen xs)"
      using False by (auto intro: filter_cong)
    with Cons False show ?thesis by simp
  qed
qed

lemma first_seen_append:
  "first_seen (xs @ ys) = first_seen xs @ filter (\<lambda>y. y \<notin> set xs) (first_seen ys)"
proof (induction xs)
  case Nil
  then show ?case by simp
next
  case (Cons a xs)
  have "filter (\<lambda>y. y \<noteq> a) (filter (\<lambda>y. y \<notin> set xs) (first_seen ys))
      = filter (\<lambda>y. y \<notin> set (a # xs)) (first_seen ys)"
    by (auto intro: filter_cong)
  with Cons show ?case by simp
qed

lemma keys_count_conditions:
  "map fst (count_conditions d cs) =
     map fst d @ first_seen (filter (\<lambda>c. c \<notin> set (map fst d)) cs)"
proof (induction d cs rule: count_conditions.induct)
  case (1 d)
  then show ?case by simp
next
  case (2 d c cs)
  let ?d' = "AList.update c (dict_get d c 0 + 1) d"
  have step: "map fst (count_conditions d (c # cs)) =
      map fst ?d' @ first_seen (filter (\<lambda>x. x \<notin> set (map fst ?d')) cs)"
    using "2.IH" by simp
  show ?case
  proof (cases "c \<in> set (map fst d)")
    case True
    then have k: "map fst ?d' = map fst d" by (simp add: update_keys)
    have "filter (\<lambda>x. x \<notin> set (map fst d)) (c # cs) = filter (\<lambda>x. x \<notin> set (map fst d)) cs"
      using True by simp
    then show ?thesis by (simp only: step k)
  next
    case False
    then have k: "map fst ?d' = map fst d @ [c]" by (simp add: update_keys)
    have "filter (\<lambda>x. x \<notin> set (map fst d @ [c])) cs
        = filter (\<lambda>y. y \<noteq> c) (filter (\<lambda>x. x \<notin> set (map fst d)) cs)"
      by (auto intro: filter_cong)
    then have a: "first_seen (filter (\<lambda>x. x \<notin> set (map fst d @ [c])) cs)
        = filter (\<lambda>y. y \<noteq> c) (first_seen (filter (\<lambda>x. x \<notin> set (map fst d)) cs))"
      by (simp only: filter_first_seen)
    have b: "filter (\<lambda>x. x \<notin> set (map fst d)) (c # cs)
        = c # filter (\<lambda>x. x \<notin> set (map fst d)) cs"
      using False by simp
    show ?thesis by (simp only: step k a b first_seen.simps append_assoc append_Cons append_Nil)
  qed
qed

lemma dict_get_Nil: "dict_get [] k 0 = 0"
  by (simp add: dict_get_def)

lemma dict_get_count_conditions:
  "dict_get (count_conditions d cs) k 0 = dict_get d k 0 + count_list cs k"
  by (induction d cs rule: count_conditions.induct)
     (auto simp: dict_get_def update_conv' split: option.splits)

lemma max_by_first_largest:
  "\<exists>pre post. b # xs = pre @ max_by f b xs # post
     \<and> (\<forall>x \<in> set pre. f x < f (max_by f b xs))
     \<and> (\<forall>x \<in> set post. f x \<le> f (max_by f b xs))"
proof (induction xs arbitrary: b)
  case Nil
  show ?case by (rule exI [of _ "[]"]) simp
next
  case (Cons x xs)
  define b' where "b' = (if f x > f b then x else b)"
  define D where "D = max_by f b' xs"
  have d: "max_by f b (x # xs) = D" by (simp add: D_def b'_def)
  from Cons [of b'] obtain pre post where
    s: "b' # xs = pre @ D # post" and
    lt: "\<forall>y \<in> set pre. f y < f D" and le: "\<forall>y \<in> set post. f y \<le> f D"
    unfolding D_def by blast
  have hd_le: "f b' \<le> f D"
  proof (cases pre)
    case Nil
    with s show ?thesis by simp
  next
    case (Cons p pre')
    with s lt show ?thesis by (simp add: less_imp_le)
  qed
  have goal: "\<exists>pre post. b # x # xs = pre @ D # post
     \<and> (\<forall>y \<in> set pre. f y < f D) \<and> (\<forall>y \<in> set post. f y \<le> f D)"
  proof (cases "f x > f b")
    case True
    then have bx: "b' = x" by (simp add: b'_def)
    have "b # x # xs = (b # pre) @ D # post" using s bx by simp
    moreover have "\<forall>y \<in> set (b # pre). f y < f D" using lt hd_le True bx by auto
    ultimately show ?thesis using le by blast
  next
    case False
    then have bb: "b' = b" by (simp add: b'_def)
    show ?thesis
    proof (cases pre)
      case Nil
      with s bb have e: "D = b" "post = xs" by simp_all
      have "b # x # xs = [] @ D # (x # post)" by (simp add: e)
      moreover have "\<forall>y \<in> set (x # post). f y \<le> f D" using le e False by auto
      moreover have "\<forall>y \<in> set ([] :: 'a list). f y < f D" by simp
      ultimately show ?thesis by blast
    next
      case (Cons p pre')
      with s bb have e: "p = b" "xs = pre' @ D # post" by simp_all
      have "b # x # xs = (b # x # pre') @ D # post" by (simp add: e)
      moreover have "\<forall>y \<in> set (b # x # pre'). f y < f D"
        using lt Cons e(1) False by auto
      ultimately show ?thesis using le by blast
    qed
  qed
  show ?case unfolding d by (rule goal)
qed

lemma takeWhile_in_front:
  "set (takeWhile (\<lambda>x. x \<noteq> d) (kpre @ d # kpost)) \<subseteq> set kpre"
  by (auto simp: takeWhile_append dest: set_takeWhileD)

lemma split_at_first:
  "d \<in> set cs \<Longrightarrow> \<exists>post. cs = takeWhile (\<lambda>x. x \<noteq> d) cs @ d # post"
  by (induction cs) auto

lemma first_seen_prefix:
  assumes "first_seen cs = kpre @ d # kpost"
  shows "set (takeWhile (\<lambda>x. x \<noteq> d) cs) \<subseteq> set kpre"
proof -
  let ?pre = "takeWhile (\<lambda>x. x \<noteq> d) cs"
  have "d \<in> set cs"
    using assms set_first_seen [of cs] by auto
  from split_at_first [OF this] obtain post where cs: "cs = ?pre @ d # post" ..
  have notin: "d \<notin> set ?pre"
    by (auto dest: set_takeWhileD)
  have "first_seen cs = first_seen ?pre @ filter (\<lambda>y. y \<notin> set ?pre) (first_seen (d # post))"
    by (subst cs) (rule first_seen_append)
  then have "first_seen cs = first_seen ?pre @ d # filter (\<lambda>y. y \<notin> set ?pre) (filter (\<lambda>y. y \<noteq> d) (first_seen post))"
    using notin by simp
  then have "takeWhile (\<lambda>x. x \<noteq> d) (first_seen cs) = first_seen ?pre"
    using notin by (simp add: takeWhile_append set_first_seen)
  then have "set (first_seen ?pre) = set (takeWhile (\<lambda>x. x \<noteq> d) (kpre @ d # kpost))"
    using assms by simp
  then have "set ?pre = set (takeWhile (\<lambda>x. x \<noteq> d) (kpre @ d # kpost))"
    by (simp only: set_first_seen)
  then show ?thesis using takeWhile_in_front [of d kpre kpost] by simp
qed

lemma dominant_first_most_frequent:
  assumes "cs \<noteq> []"
  shows "\<exists>d. dominant py cs = Inr d \<and> d \<in> set cs
           \<and> (\<forall>c. count_list cs c \<le> count_list cs d)
           \<and> (\<forall>c \<in> set (takeWhile (\<lambda>x. x \<noteq> d) cs). count_list cs c < count_list cs d)"
proof -
  let ?counts = "count_conditions [] cs"
  let ?f = "\<lambda>c. dict_get ?counts c 0"
  have f: "?f = count_list cs"
    by (rule ext) (simp only: dict_get_count_conditions dict_get_Nil add_0)
  have keys: "map fst ?counts = first_seen cs"
    using keys_count_conditions [of "[]" cs] by simp
  from assms obtain b xs where bx: "first_seen cs = b # xs"
    by (cases cs) auto
  let ?d = "max_by (count_list cs) b xs"
  have dom: "dominant py cs = Inr ?d"
    by (simp add: dominant_def Let_def py_max_def keys bx f)
  from max_by_first_largest [of b xs "count_list cs"] obtain pre post where
    s: "b # xs = pre @ ?d # post" and
    lt: "\<forall>x \<in> set pre. count_list cs x < count_list cs ?d" and
    le: "\<forall>x \<in> set post. count_list cs x \<le> count_list cs ?d"
    by blast
  have split: "first_seen cs = pre @ ?d # post" using s bx by simp
  have mem: "?d \<in> set cs"
    using split set_first_seen [of cs] by auto
  have most: "\<forall>c. count_list cs c \<le> count_list cs ?d"
  proof
    fix c
    show "count_list cs c \<le> count_list cs ?d"
    proof (cases "c \<in> set cs")
      case True
      then have "c \<in> set (pre @ ?d # post)"
        using split set_first_seen [of cs] by simp
      then show ?thesis using lt le by (auto simp: less_imp_le)
    next
      case False
      then show ?thesis by (simp add: count_list_0_iff)
    qed
  qed
  have first: "\<forall>c \<in> set (takeWhile (\<lambda>x. x \<noteq> ?d) cs). count_list cs c < count_list cs ?d"
    using first_seen_prefix [OF split] lt by blast
  from dom mem most first show ?thesis by blast
qed

lemma average_nonempty:
  "xs \<noteq> [] \<Longrightarrow>
     average py xs =
       and_then (builtin_sum py xs) (\<lambda>total. truediv py total (Finite (of_nat (length xs))))"
  by (simp add: average_def py_truediv_def)

lemma summarize_forecast_report:
  assumes "temperature_2m_max daily \<noteq> []" and "temperature_2m_min daily \<noteq> []"
    and "average py (temperature_2m_max daily) = Inr avg_max"
    and "average py (temperature_2m_min daily) = Inr avg_min"
    and "py_truediv py (float_add py avg_max avg_min) (Finite 2) = Inr avg_temp"
    and "dominant py (map interpret_code (weathercode daily)) = Inr d"
  shows "summarize_forecast py city_name country daily =
           Inr (WeatherReport city_name country (py_round py avg_temp 1)
                  (py_round py avg_max 1) (py_round py avg_min 1) d
                  (recommendation_for d @ temperature_advice avg_temp)
                  (length (temperature_2m_max daily)))"
  using assms by (simp add: summarize_forecast_def Let_def and_then_def)

lemma summarize_forecast_no_codes:
  assumes "temperature_2m_max daily \<noteq> []" and "temperature_2m_min daily \<noteq> []"
    and "average py (temperature_2m_max daily) = Inr avg_max"
    and "average py (temperature_2m_min daily) = Inr avg_min"
    and "py_truediv py (float_add py avg_max avg_min) (Finite 2) = Inr avg_temp"
    and "weathercode daily = []"
  shows "summarize_forecast py city_name country daily =
           Inl (Exn ValueError (max_empty_message py))"
  using assms
  by (simp add: summarize_forecast_def Let_def and_then_def dominant_def py_max_def)

lemma get_weather_forecast:
  assumes "geocoding_api env city = Inr (Some (place # others))"
    and "forecast_api env (latitude place) (longitude place) = Inr daily"
  shows "get_weather py env city =
           (case summarize_forecast py (case geo_name place of None \<Rightarrow> city | Some n \<Rightarrow> n)
                   (case geo_country place of None \<Rightarrow> [] | Some c \<Rightarrow> c) daily of
              Inr result \<Rightarrow> Inr result
            | Inl e \<Rightarrow>
                if is_RequestException (exn_cls e)
                then Inr (WeatherUnavailable (''Weather API request failed: '' @ exn_str e)
                            ''unknown'' ''Unable to fetch weather data'')
                else if is_Exception (exn_cls e)
                then Inr (WeatherUnavailable (''Weather tool error: '' @ exn_str e) ''unknown''
                            ''An error occurred'')
                else Inl e)"
  using assms by (simp add: get_weather_def get_weather_body_def and_then_def)

lemma sample_week_average:
  "average sample_interpreter (temperature_2m_max (week codes)) = Inr (Finite 9)"
  "average sample_interpreter (temperature_2m_min (week codes)) = Inr (Finite 3)"
  "py_truediv sample_interpreter (float_add sample_interpreter (Finite 9) (Finite 3)) (Finite 2)
     = Inr (Finite 6)"
  by (simp_all add: average_def py_truediv_def and_then_def sample_interpreter_def week_def)

lemma sample_week_forecast:
  "geocoding_api (sample_weather_env daily) city =
     Inr (Some (\<lparr>latitude = 4886 / 100, longitude = 235 / 100,
                  geo_name = Some ''Paris'', geo_country = Some ''France''\<rparr> # []))"
  "forecast_api (sample_weather_env daily) lat lon = Inr daily"
  by (simp_all add: sample_weather_env_def)

text \<open>
  C7, as the spec states it: for every list of daily codes the tool reports the most
  frequent category. \<^verbatim>\<open>daily.get("weathercode", [])\<close> may be empty while the temperatures
  are there: \<^verbatim>\<open>max\<close> of the empty dictionary raises, the last handler takes it, and
  the answer is the degraded shape whose conditions are \<^verbatim>\<open>unknown\<close>, with no advice.
\<close>

theorem empty_codes_give_no_condition:
  "get_weather sample_interpreter (sample_weather_env (week [])) ''paris'' =
     Inr (WeatherUnavailable ''Weather tool error: max() arg is an empty sequence'' ''unknown''
            ''An error occurred'')"
proof -
  have "summarize_forecast sample_interpreter ''Paris'' ''France'' (week []) =
          Inl (Exn ValueError (max_empty_message sample_interpreter))"
    by (rule summarize_forecast_no_codes [OF _ _ sample_week_average])
       (simp_all add: week_def)
  then show ?thesis
    by (simp add: get_weather_forecast [OF sample_week_forecast] sample_interpreter_def)
qed

text \<open>
  C7, amended: take a forecast with temperatures whose averages the interpreter
  computes: \<open>avg_max\<close> and \<open>avg_min\<close> are \<^verbatim>\<open>sum(temps) / len(temps)\<close> of the two lists and
  \<open>avg_temp\<close> is \<^verbatim>\<open>(avg_max + avg_min) / 2\<close>. If the list of daily codes is not empty,
  each day is classified by the thresholds (code \<open>\<le> 1\<close> sunny, \<open>\<le> 3\<close> cloudy, \<open>> 50\<close>
  rainy, otherwise mixed); the reported condition is a category of the window that no
  category outnumbers, and every category seen before its first day is strictly less
  frequent (ties go to the category seen first); the recommendation is the text of the
  condition followed by the cold-weather advice when \<open>avg_temp\<close> is below 10, by the
  hot-weather advice when it is above 30, by nothing otherwise. If the list of daily
  codes is empty, the answer is the degraded shape: the error is the one of \<^verbatim>\<open>max\<close> on an
  empty argument, the conditions are \<^verbatim>\<open>unknown\<close>. For the codes 0, 0, 2, 2, 2, 60, 60 the
  dominant condition is cloudy.
\<close>

theorem weather_dominant_condition:
  assumes "geocoding_api env city = Inr (Some (place # others))"
    and "forecast_api env (latitude place) (longitude place) = Inr daily"
    and "temperature_2m_max daily \<noteq> []" and "temperature_2m_min daily \<noteq> []"
    and "average py (temperature_2m_max daily) = Inr avg_max"
    and "average py (temperature_2m_min daily) = Inr avg_min"
    and "py_truediv py (float_add py avg_max avg_min) (Finite 2) = Inr avg_temp"
    and "cs = map (\<lambda>code. if code \<le> 1 then ''sunny'' else if code \<le> 3 then ''cloudy''
                          else if code > 50 then ''rainy'' else ''mixed'') (weathercode daily)"
  shows "(weathercode daily \<noteq> [] \<longrightarrow>
          (\<exists>r. get_weather py env city = Inr r
            \<and> conditions r \<in> set cs
            \<and> (\<forall>c. count_list cs c \<le> count_list cs (conditions r))
            \<and> (\<forall>c \<in> set (takeWhile (\<lambda>x. x \<noteq> conditions r) cs).
                  count_list cs c < count_list cs (conditions r))
            \<and> recommendation r =
                recommendation_for (conditions r) @
                (if py_less avg_temp (Finite 10) then '' Cold temperatures - bring warm clothing.''
                 else if py_greater avg_temp (Finite 30)
                 then '' Hot weather - stay hydrated and seek shade.''
                 else [])))
    \<and> (weathercode daily = [] \<longrightarrow>
          get_weather py env city =
            Inr (WeatherUnavailable (''Weather tool error: '' @ max_empty_message py) ''unknown''
                   ''An error occurred''))
    \<and> dominant py (map interpret_code [0, 0, 2, 2, 2, 60, 60]) = Inr ''cloudy''"
proof -
  note gw = get_weather_forecast [OF assms(1) assms(2), of py]
  have cs: "cs = map interpret_code (weathercode daily)"
    using assms(8) by (simp add: interpret_code_def [abs_def])
  have first: "\<exists>r. get_weather py env city = Inr r
            \<and> conditions r \<in> set cs
            \<and> (\<forall>c. count_list cs c \<le> count_list cs (conditions r))
            \<and> (\<forall>c \<in> set (takeWhile (\<lambda>x. x \<noteq> conditions r) cs).
                  count_list cs c < count_list cs (conditions r))
            \<and> recommendation r =
                recommendation_for (conditions r) @
                (if py_less avg_temp (Finite 10) then '' Cold temperatures - bring warm clothing.''
                 else if py_greater avg_temp (Finite 30)
                 then '' Hot weather - stay hydrated and seek shade.''
                 else [])"
    if codes: "weathercode daily \<noteq> []"
  proof -
    from codes cs have "cs \<noteq> []" by simp
    from dominant_first_most_frequent [OF this, of py] obtain d where
      d: "dominant py cs = Inr d" "d \<in> set cs" "\<forall>c. count_list cs c \<le> count_list cs d"
         "\<forall>c \<in> set (takeWhile (\<lambda>x. x \<noteq> d) cs). count_list cs c < count_list cs d"
      by blast
    let ?r = "WeatherReport (case geo_name place of None \<Rightarrow> city | Some n \<Rightarrow> n)
                (case geo_country place of None \<Rightarrow> [] | Some c \<Rightarrow> c)
                (py_round py avg_temp 1) (py_round py avg_max 1) (py_round py avg_min 1)
                d (recommendation_for d @ temperature_advice avg_temp)
                (length (temperature_2m_max daily))"
    have "summarize_forecast py (case geo_name place of None \<Rightarrow> city | Some n \<Rightarrow> n)
             (case geo_country place of None \<Rightarrow> [] | Some c \<Rightarrow> c) daily = Inr ?r"
      by (rule summarize_forecast_report [OF assms(3) assms(4) assms(5) assms(6) assms(7)
            d(1) [unfolded cs]])
    then have r: "get_weather py env city = Inr ?r"
      by (simp add: gw)
    have "recommendation ?r =
            recommendation_for (conditions ?r) @
            (if py_less avg_temp (Finite 10) then '' Cold temperatures - bring warm clothing.''
             else if py_greater avg_temp (Finite 30)
             then '' Hot weather - stay hydrated and seek shade.''
             else [])"
      by (simp add: temperature_advice_def)
    with r d show ?thesis
      by (intro exI [of _ ?r]) simp
  qed
  have second: "get_weather py env city =
            Inr (WeatherUnavailable (''Weather tool error: '' @ max_empty_message py) ''unknown''
                   ''An error occurred'')"
    if codes: "weathercode daily = []"
  proof -
    have "summarize_forecast py (case geo_name place of None \<Rightarrow> city | Some n \<Rightarrow> n)
             (case geo_country place of None \<Rightarrow> [] | Some c \<Rightarrow> c) daily =
          Inl (Exn ValueError (max_empty_message py))"
      by (rule summarize_forecast_no_codes [OF assms(3) assms(4) assms(5) assms(6) assms(7)
            codes])
    then show ?thesis by (simp add: gw)
  qed
  have "dominant py (map interpret_code [0, 0, 2, 2, 2, 60, 60]) = Inr ''cloudy''"
    by (simp add: dominant_def interpret_code_def dict_get_def py_max_def Let_def)
  with first second show ?thesis by blast
qed

lemma sample_week_report:
  "get_weather sample_interpreter (sample_weather_env (week [0, 0, 2, 2, 2, 60, 60])) ''paris'' =
     Inr (WeatherReport ''Paris'' ''France'' (Finite 6) (Finite 9) (Finite 3) ''cloudy''
            (''Expect overcast skies. Bring layers for varying temperatures.''
             @ '' Cold temperatures - bring warm clothing.'') 7)"
proof -
  have d: "dominant sample_interpreter
             (map interpret_code (weathercode (week [0, 0, 2, 2, 2, 60, 60]))) = Inr ''cloudy''"
    by (simp add: week_def dominant_def interpret_code_def dict_get_def py_max_def Let_def)
  have "summarize_forecast sample_interpreter ''Paris'' ''France'' (week [0, 0, 2, 2, 2, 60, 60]) =
          Inr (WeatherReport ''Paris'' ''France'' (py_round sample_interpreter (Finite 6) 1)
                 (py_round sample_interpreter (Finite 9) 1)
                 (py_round sample_interpreter (Finite 3) 1) ''cloudy''
                 (recommendation_for ''cloudy'' @ temperature_advice (Finite 6))
                 (length (temperature_2m_max (week [0, 0, 2, 2, 2, 60, 60]))))"
    by (rule summarize_forecast_report [OF _ _ sample_week_average d])
       (simp_all add: week_def)
  then show ?thesis
    by (simp add: get_weather_forecast [OF sample_week_forecast] week_def py_round_def
        sample_interpreter_def round_half_even_def recommendation_for_def
        temperature_advice_def)
qed

theorem weather_dominant_condition_witness:
  "weathercode (week [0, 0, 2, 2, 2, 60, 60]) \<noteq> []
   \<and> get_weather sample_interpreter (sample_weather_env (week [0, 0, 2, 2, 2, 60, 60])) ''paris'' =
     Inr (WeatherReport ''Paris'' ''France'' (Finite 6) (Finite 9) (Finite 3) ''cloudy''
            (''Expect overcast skies. Bring layers for varying temperatures.''
             @ '' Cold temperatures - bring warm clothing.'') 7)
   \<and> count_list (map interpret_code [0, 0, 2, 2, 2, 60, 60]) ''cloudy'' = 3
   \<and> count_list (map interpret_code [0, 0, 2, 2, 2, 60, 60]) ''sunny'' = 2
   \<and> count_list (map interpret_code [0, 0, 2, 2, 2, 60, 60]) ''rainy'' = 2
   \<and> py_less (Finite 6) (Finite 10)
   \<and> dominant sample_interpreter (map interpret_code [0, 0, 2, 2, 2, 60, 60]) = Inr ''cloudy''"
proof -
  let ?daily = "week [0, 0, 2, 2, 2, 60, 60]"
  have t: "temperature_2m_max ?daily \<noteq> []" "temperature_2m_min ?daily \<noteq> []"
    "weathercode ?daily \<noteq> []"
    by (simp_all add: week_def)
  from weather_dominant_condition [OF sample_week_forecast t(1) t(2) sample_week_average refl,
      of "''paris''"]
  have "dominant sample_interpreter (map interpret_code [0, 0, 2, 2, 2, 60, 60]) = Inr ''cloudy''"
    by blast
  with t(3) sample_week_report show ?thesis
    by (simp add: interpret_code_def)
qed

section \<open>Properties of the currency tool\<close>











end
